theory Spec2Isabelle
  imports Complex_Main "HOL-Library.Log_Nat"
begin

section \<open>Query parameters\<close>

text \<open>
  The handlers read \<^verbatim>\<open>request.args.get("ticker", "").upper().strip()\<close>. A Python \<^verbatim>\<open>str\<close> is a
  sequence of Unicode code points, here a list of naturals. \<^verbatim>\<open>str.upper()\<close> replaces every
  code point by its full upper case mapping (one code point or several: U+00DF becomes SS), and
  \<^verbatim>\<open>str.strip()\<close> removes the leading and the trailing run of the code points that
  \<^verbatim>\<open>str.isspace\<close> accepts. The two tables belong to the Unicode database of the interpreter,
  not to the repository, and are a parameter of the model.
\<close>

type_synonym ustr = "nat list"

record unicode =
  toupper_full :: "nat \<Rightarrow> nat list"
  is_space :: "nat \<Rightarrow> bool"

definition upper :: "unicode \<Rightarrow> ustr \<Rightarrow> ustr" where
  "upper ucd s = concat (map (toupper_full ucd) s)"

definition strip :: "unicode \<Rightarrow> ustr \<Rightarrow> ustr" where
  "strip ucd s = rev (dropWhile (is_space ucd) (rev (dropWhile (is_space ucd) s)))"

definition args_get :: "'a option \<Rightarrow> 'a \<Rightarrow> 'a" where
  "args_get arg dflt = (case arg of None \<Rightarrow> dflt | Some s \<Rightarrow> s)"

text \<open>The code points of a literal of the source.\<close>

definition codes :: "string \<Rightarrow> ustr" where
  "codes s = map of_char s"

section \<open>Dates and the clock\<close>

text \<open>
  A \<^verbatim>\<open>datetime.date\<close> is its proleptic Gregorian ordinal (\<^verbatim>\<open>date.toordinal()\<close>), so adding a
  \<^verbatim>\<open>timedelta(days=n)\<close> is adding \<open>n\<close>. Python computes \<^verbatim>\<open>date.weekday()\<close> as
  \<^verbatim>\<open>(toordinal() + 6) % 7\<close>: Monday is 0 and Sunday is 6.
\<close>

type_synonym date = int

definition weekday :: "date \<Rightarrow> int" where
  "weekday d = (d + 6) mod 7"

text \<open>
  \<^verbatim>\<open>now = datetime.now(pytz.timezone('America/New_York'))\<close>: the wall clock of New York. The
  clock is an input of the model. \<^verbatim>\<open>now.replace(...)\<close> keeps the \<^verbatim>\<open>tzinfo\<close> of \<open>now\<close>, and
  Python compares two aware datetimes of one \<^verbatim>\<open>tzinfo\<close> field by field, which is \<open>dt_le\<close>.
\<close>

record datetime =
  today :: date
  hour :: nat
  minute :: nat
  second :: nat
  microsecond :: nat

definition dt_le :: "datetime \<Rightarrow> datetime \<Rightarrow> bool" where
  "dt_le a b =
     (today a < today b \<or> (today a = today b \<and>
       (hour a < hour b \<or> (hour a = hour b \<and>
         (minute a < minute b \<or> (minute a = minute b \<and>
           (second a < second b \<or> (second a = second b \<and>
             microsecond a \<le> microsecond b))))))))"

text \<open>Lines 242 to 252 of \<^verbatim>\<open>get_stock_graph\<close>: the session a 1d request asks for.\<close>

definition target_date :: "datetime \<Rightarrow> date" where
  "target_date now =
     (let today_ny = today now in
      if weekday today_ny \<ge> 5
      then today_ny - (weekday today_ny - 4) mod 7
      else
        (let market_open = now\<lparr>hour := 9, minute := 30, second := 0, microsecond := 0\<rparr>;
             market_close = now\<lparr>hour := 16, minute := 0, second := 0, microsecond := 0\<rparr>
         in if dt_le market_open now \<and> dt_le now market_close
            then today_ny
            else today_ny - 1))"

text \<open>
  \<^verbatim>\<open>pd.Timestamp(target_date) - pd.offsets.BDay(1)\<close>. Subtracting an offset adds its negation,
  and pandas' \<^verbatim>\<open>BusinessDay\<close> applies \<open>n\<close> business days to a date as \<open>BDay_apply n\<close> does
  (floor division, as Python's \<^verbatim>\<open>//\<close>).
\<close>

definition BDay_apply :: "int \<Rightarrow> date \<Rightarrow> date" where
  "BDay_apply n0 other =
     (let wday = weekday other;
          weeks = n0 div 5;
          n1 = (if n0 \<le> 0 \<and> wday > 4 then n0 + 1 else n0);
          n = n1 - 5 * weeks;
          days = (if n = 0 \<and> wday > 4 then 4 - wday
                  else if wday > 4 then (7 - wday) + (n - 1)
                  else if wday + n \<le> 4 then n
                  else n + 2)
      in other + (7 * weeks + days))"

definition prev_trading_day :: "date \<Rightarrow> date" where
  "prev_trading_day d = BDay_apply (- 1) d"

section \<open>The provider and its frames\<close>

text \<open>
  A \<^verbatim>\<open>DataFrame\<close> of the provider: an index of timestamps, with or without a zone, and one row
  of columns per timestamp. A timestamp is the integer pandas stores, counted in microseconds
  (the resolution of \<^verbatim>\<open>between_time\<close>): for an aware index the time since the epoch in UTC, for
  a naive index the wall clock reading. A price is a float; \<open>None\<close> is NaN, and the model
  takes every other float as the real number it denotes (the code only compares and copies
  prices). A volume is a 64 bit integer, or missing.
\<close>

datatype tzinfo = UTC | America_New_York | Other_zone string

record row =
  stamp :: int
  Open :: "real option"
  High :: "real option"
  Low :: "real option"
  Close :: "real option"
  Volume :: "int option"

record frame =
  index_tz :: "tzinfo option"
  rows :: "row list"

datatype exn = TypeError string | ValueError string | ProviderError string

fun str :: "exn \<Rightarrow> string" where
  "str (TypeError m) = m"
| "str (ValueError m) = m"
| "str (ProviderError m) = m"

text \<open>
  The calls \<^verbatim>\<open>stock.history(...)\<close> makes: a range of dates, or a named period, each with its
  interval and the \<^verbatim>\<open>prepost\<close> flag (False when the call leaves it out). The provider answers
  with a frame or raises.
\<close>

datatype request =
  History_range date date string bool
| History_period string string bool

type_synonym provider = "request \<Rightarrow> exn + frame"

text \<open>
  \<^verbatim>\<open>yf.Ticker(ticker)\<close> gives the object whose \<^verbatim>\<open>history\<close> method the handlers call: the
  provider of one ticker symbol. The constructor makes no request.
\<close>

type_synonym ticker_provider = "ustr \<Rightarrow> provider"

text \<open>
  The zone database entry of America/New_York, which is not part of the repository and is a
  parameter of the model: \<open>utcoffset\<close> gives the offset from UTC in force at an instant,
  \<open>localize\<close> the instant of a wall clock reading (both in microseconds).
\<close>

record zone =
  utcoffset :: "int \<Rightarrow> int"
  localize :: "int \<Rightarrow> int"

section \<open>The pandas operations the handler calls\<close>

text \<open>
  \<^verbatim>\<open>tz_localize\<close> gives a naive index a zone and keeps the stored integers (the wall clock is
  read in that zone; for UTC the reading is the instant). \<^verbatim>\<open>tz_convert\<close> changes the zone of an
  aware index and keeps the instants. Each raises \<^verbatim>\<open>TypeError\<close> on the other kind of index.
\<close>

definition tz_localize :: "tzinfo \<Rightarrow> frame \<Rightarrow> exn + frame" where
  "tz_localize tz fr =
     (if index_tz fr = None then Inr (fr\<lparr>index_tz := Some tz\<rparr>)
      else Inl (TypeError ''Already tz-aware, use tz_convert to convert.''))"

definition tz_convert :: "tzinfo \<Rightarrow> frame \<Rightarrow> exn + frame" where
  "tz_convert tz fr =
     (if index_tz fr = None
      then Inl (TypeError ''Cannot convert tz-naive timestamps, use tz_localize to localize'')
      else Inr (fr\<lparr>index_tz := Some tz\<rparr>))"

definition day_us :: int where
  "day_us = 86400000000"

definition minutes :: "int \<Rightarrow> int" where
  "minutes m = m * 60000000"

text \<open>The New York wall clock at an instant, and its time of day.\<close>

definition local_time :: "zone \<Rightarrow> int \<Rightarrow> int" where
  "local_time ny t = t + utcoffset ny t"

definition time_of_day :: "zone \<Rightarrow> int \<Rightarrow> int" where
  "time_of_day ny t = local_time ny t mod day_us"

text \<open>
  \<^verbatim>\<open>between_time(start, end)\<close> on an index in the New York zone (the code calls it only after
  \<^verbatim>\<open>tz_convert('America/New_York')\<close>): the rows whose local time of day lies between the two
  times, both ends included (pandas' default), in their order.
\<close>

definition between_time :: "zone \<Rightarrow> int \<Rightarrow> int \<Rightarrow> frame \<Rightarrow> frame" where
  "between_time ny start_time end_time fr =
     fr\<lparr>rows := filter (\<lambda>r. start_time \<le> time_of_day ny (stamp r) \<and>
                              time_of_day ny (stamp r) \<le> end_time) (rows fr)\<rparr>"

text \<open>
  The aggregations of \<^verbatim>\<open>resample(...).agg\<close>. Each skips NaN: \<^verbatim>\<open>first\<close> and \<^verbatim>\<open>last\<close> are the
  first and the last value that is not NaN, \<^verbatim>\<open>max\<close> and \<^verbatim>\<open>min\<close> range over the values that are
  not NaN, and each of the four is NaN when there is none; \<^verbatim>\<open>sum\<close> adds the values that are
  present and is 0 when there is none. The volumes are the provider's 64 bit integers, and
  their sum wraps around as 64 bit addition does.
\<close>

definition int64 :: "int \<Rightarrow> int" where
  "int64 x = (x + 2 ^ 63) mod 2 ^ 64 - 2 ^ 63"

fun valid :: "'a option list \<Rightarrow> 'a list" where
  "valid [] = []"
| "valid (None # xs) = valid xs"
| "valid (Some v # xs) = v # valid xs"

definition agg_first :: "'a option list \<Rightarrow> 'a option" where
  "agg_first xs = (case valid xs of [] \<Rightarrow> None | v # vs \<Rightarrow> Some v)"

definition agg_last :: "'a option list \<Rightarrow> 'a option" where
  "agg_last xs = (case rev (valid xs) of [] \<Rightarrow> None | v # vs \<Rightarrow> Some v)"

definition agg_max :: "real option list \<Rightarrow> real option" where
  "agg_max xs = (case valid xs of [] \<Rightarrow> None | v # vs \<Rightarrow> Some (fold max vs v))"

definition agg_min :: "real option list \<Rightarrow> real option" where
  "agg_min xs = (case valid xs of [] \<Rightarrow> None | v # vs \<Rightarrow> Some (fold min vs v))"

definition agg_sum :: "int option list \<Rightarrow> int option" where
  "agg_sum xs = Some (int64 (sum_list (valid xs)))"

text \<open>
  The dictionary of lines 266 to 272, applied to the rows of one bin; the row it makes is
  labelled with the start of the bin.
\<close>

definition agg :: "int \<Rightarrow> row list \<Rightarrow> row" where
  "agg label rs =
     \<lparr>stamp = label,
      Open = agg_first (map Open rs),
      High = agg_max (map High rs),
      Low = agg_min (map Low rs),
      Close = agg_last (map Close rs),
      Volume = agg_sum (map Volume rs)\<rparr>"

text \<open>
  \<^verbatim>\<open>Timestamp.normalize()\<close>: midnight of the local day, as an instant.
\<close>

definition normalize :: "zone \<Rightarrow> int \<Rightarrow> int" where
  "normalize ny t = localize ny (local_time ny t - local_time ny t mod day_us)"

text \<open>
  \<^verbatim>\<open>resample('5T')\<close> followed by \<^verbatim>\<open>agg\<close>. pandas sorts the rows by timestamp with a stable
  sort, anchors the bins at the midnight of the first row's day (\<^verbatim>\<open>origin='start_day'\<close>), and
  lays bins of five minutes, closed on the left and labelled by their left edge, from the bin
  of the first row to the bin of the last. Every bin in that range gives a row, empty bins
  too (their prices are NaN and their volume 0). A frame with no rows gives no rows.
\<close>

definition bins :: "zone \<Rightarrow> row list \<Rightarrow> int list" where
  "bins ny rs =
     (case rs of
        [] \<Rightarrow> []
      | r # _ \<Rightarrow>
          (let freq = minutes 5;
               first = stamp r;
               lst = stamp (last rs);
               origin = normalize ny first;
               foffset = (first - origin) mod freq;
               loffset = (lst - origin) mod freq;
               fresult = (if foffset > 0 then first - foffset else first);
               lresult = (if loffset > 0 then lst + (freq - loffset) else lst + freq)
           in map (\<lambda>k. fresult + int k * freq) [0 ..< nat ((lresult - fresult) div freq)]))"

definition resample_5T :: "zone \<Rightarrow> frame \<Rightarrow> frame" where
  "resample_5T ny fr =
     (let rs = sort_key stamp (rows fr) in
      fr\<lparr>rows := map (\<lambda>lo. agg lo (filter (\<lambda>r. lo \<le> stamp r \<and> stamp r < lo + minutes 5) rs))
                      (bins ny rs)\<rparr>)"

section \<open>The handlers\<close>

text \<open>
  One entry of \<^verbatim>\<open>graph_data\<close>. \<open>time\<close> is the timestamp that \<^verbatim>\<open>strftime\<close> renders (the
  rendering is not modelled), \<open>price\<close> is \<^verbatim>\<open>float(row['Close'])\<close> of a row whose close is not
  NaN; the other prices may be NaN.
\<close>

record point =
  time :: int
  price :: real
  open_price :: "real option"
  high :: "real option"
  low :: "real option"
  volume :: int

text \<open>
  The bodies \<^verbatim>\<open>jsonify\<close> is given, with the keys of each. \<open>Quote_body\<close> is the answer of
  \<^verbatim>\<open>/stock\<close>, kept as its list of keys and rendered values.
\<close>

datatype body =
  Error_body string
| Failure_body string ustr
| Graph_body ustr string "point list" datetime
| Quote_body "(string \<times> string) list"

fun json_keys :: "body \<Rightarrow> string list" where
  "json_keys (Error_body e) = [''error'']"
| "json_keys (Failure_body e m) = [''status'', ''error'', ''message'']"
| "json_keys (Graph_body t p d u) = [''status'', ''ticker'', ''period'', ''data'', ''last_updated'']"
| "json_keys (Quote_body kvs) = map fst kvs"

text \<open>
  A response is the HTTP status with the body; a handler also yields the calls it made to the
  provider, in order.
\<close>

type_synonym response = "nat \<times> body"

text \<open>
  \<^verbatim>\<open>iterrows()\<close> hands out every row as a series of one type, which is \<^verbatim>\<open>float64\<close> for these
  columns: the volume is read as the double nearest to it (ties to the even significand), and
  \<^verbatim>\<open>int\<close> gives that double back as an integer. Below \<open>2 ^ 53\<close> in magnitude nothing changes.
\<close>

definition float64 :: "int \<Rightarrow> int" where
  "float64 v =
     (if \<bar>v\<bar> < 2 ^ 53 then v
      else (let e = nat (bitlen \<bar>v\<bar> - 53);
                q = \<bar>v\<bar> div 2 ^ e;
                r = \<bar>v\<bar> mod 2 ^ e;
                m = (if 2 * r > 2 ^ e \<or> (2 * r = 2 ^ e \<and> odd q) then q + 1 else q)
            in sgn v * (m * 2 ^ e)))"

text \<open>
  The element expression of the comprehensions at lines 294 to 301 and 317 to 324, for a row
  whose close is \<open>c\<close>: \<^verbatim>\<open>idx.tz_convert\<close> raises on a naive timestamp, and \<^verbatim>\<open>int\<close> raises on
  NaN.
\<close>

definition to_point :: "tzinfo option \<Rightarrow> row \<Rightarrow> real \<Rightarrow> exn + point" where
  "to_point tz r c =
     (if tz = None
      then Inl (TypeError ''Cannot convert tz-naive Timestamp, use tz_localize to localize'')
      else (case Volume r of
              None \<Rightarrow> Inl (ValueError ''cannot convert float NaN to integer'')
            | Some v \<Rightarrow>
                Inr \<lparr>time = stamp r, price = c, open_price = Open r, high = High r,
                     low = Low r, volume = float64 v\<rparr>))"

text \<open>The comprehension: the rows in order, those with a NaN close left out.\<close>

fun points :: "tzinfo option \<Rightarrow> row list \<Rightarrow> exn + point list" where
  "points tz [] = Inr []"
| "points tz (r # rs) =
     (case Close r of
        None \<Rightarrow> points tz rs
      | Some c \<Rightarrow>
          (case to_point tz r c of
             Inl e \<Rightarrow> Inl e
           | Inr p \<Rightarrow> (case points tz rs of Inl e \<Rightarrow> Inl e | Inr ps \<Rightarrow> Inr (p # ps))))"

definition iterrows_points :: "frame \<Rightarrow> exn + point list" where
  "iterrows_points fr = points (index_tz fr) (rows fr)"

text \<open>Lines 260 to 263 (and 279 to 282): the frame in New York time, cut to market hours.\<close>

definition market_hours :: "zone \<Rightarrow> frame \<Rightarrow> exn + frame" where
  "market_hours ny data =
     (if index_tz data = None
      then (case tz_localize UTC data of
              Inl e \<Rightarrow> Inl e
            | Inr u \<Rightarrow>
                (case tz_convert America_New_York u of
                   Inl e \<Rightarrow> Inl e
                 | Inr l \<Rightarrow> Inr (between_time ny (minutes 570) (minutes 960) l)))
      else (case tz_convert America_New_York data of
              Inl e \<Rightarrow> Inl e
            | Inr l \<Rightarrow> Inr (between_time ny (minutes 570) (minutes 960) l)))"

text \<open>Lines 260 to 272: market hours, then the five minute bars.\<close>

definition market_data :: "zone \<Rightarrow> frame \<Rightarrow> exn + frame" where
  "market_data ny data =
     (case market_hours ny data of Inl e \<Rightarrow> Inl e | Inr m \<Rightarrow> Inr (resample_5T ny m))"

text \<open>\<^verbatim>\<open>pd.DataFrame()\<close>: no rows, and an index that is not a time index.\<close>

definition empty_frame :: frame where
  "empty_frame = \<lparr>index_tz = None, rows = []\<rparr>"

text \<open>
  Lines 240 to 303, the branch of \<^verbatim>\<open>period == "1d"\<close>: the value of \<^verbatim>\<open>graph_data\<close>, or the
  exception that leaves the \<^verbatim>\<open>try\<close> block, with the calls made to the provider.
\<close>

definition graph_data_1d :: "zone \<Rightarrow> provider \<Rightarrow> datetime \<Rightarrow> (exn + point list) \<times> request list" where
  "graph_data_1d ny history now =
     (let target = target_date now;
          req = History_range target (target + 1) ''1m'' True
      in case history req of
           Inl e \<Rightarrow> (Inl e, [req])
         | Inr data \<Rightarrow>
             if rows data \<noteq> [] then
               (case market_data ny data of
                  Inl e \<Rightarrow> (Inl e, [req])
                | Inr md \<Rightarrow>
                    if length (rows md) < 2 then
                      (let prev = prev_trading_day target;
                           req2 = History_range prev (prev + 1) ''1m'' True
                       in case history req2 of
                            Inl e \<Rightarrow> (Inl e, [req, req2])
                          | Inr data2 \<Rightarrow>
                              if rows data2 \<noteq> [] then
                                (case market_data ny data2 of
                                   Inl e \<Rightarrow> (Inl e, [req, req2])
                                 | Inr md2 \<Rightarrow> (iterrows_points md2, [req, req2]))
                              else (iterrows_points empty_frame, [req, req2]))
                    else (iterrows_points md, [req]))
             else (Inr [], [req]))"

text \<open>Lines 306 to 315: the call of every other period.\<close>

definition period_request :: "string \<Rightarrow> request" where
  "period_request period =
     (if period = ''7d'' then History_period ''7d'' ''1h'' False
      else if period = ''30d'' then History_period ''1mo'' ''1d'' False
      else if period = ''3mo'' then History_period ''3mo'' ''1d'' False
      else if period = ''1y'' then History_period ''1y'' ''1wk'' False
      else History_period ''1mo'' ''1d'' False)"

definition graph_data_period :: "provider \<Rightarrow> string \<Rightarrow> (exn + point list) \<times> request list" where
  "graph_data_period history period =
     (let req = period_request period
      in case history req of
           Inl e \<Rightarrow> (Inl e, [req])
         | Inr data \<Rightarrow> (iterrows_points data, [req]))"

text \<open>
  \<^verbatim>\<open>get_stock_graph\<close>, the handler of \<^verbatim>\<open>/stock_graph\<close>: the two query arguments (absent or
  given), the clock, the provider, the zone database and the Unicode database are its inputs.
  The message of the failure is \<^verbatim>\<open>f"Failed to fetch {period} data for {ticker}"\<close>.
\<close>

definition get_stock_graph ::
  "unicode \<Rightarrow> zone \<Rightarrow> ticker_provider \<Rightarrow> datetime \<Rightarrow> ustr option \<Rightarrow> string option
     \<Rightarrow> response \<times> request list" where
  "get_stock_graph ucd ny Ticker now ticker_arg period_arg =
     (let ticker = strip ucd (upper ucd (args_get ticker_arg []));
          period = args_get period_arg ''1d''
      in if ticker = [] then ((400, Error_body ''No ticker provided''), [])
         else
           (let stock = Ticker ticker;
                (graph_data, calls) =
                  (if period = ''1d'' then graph_data_1d ny stock now
                   else graph_data_period stock period)
            in case graph_data of
                 Inl e \<Rightarrow>
                   ((500, Failure_body (str e)
                            (codes (''Failed to fetch '' @ period @ '' data for '') @ ticker)),
                    calls)
               | Inr gd \<Rightarrow>
                   if gd = [] then ((404, Error_body ''No valid data points after processing''), calls)
                   else ((200, Graph_body ticker period gd now), calls)))"

text \<open>
  \<^verbatim>\<open>get_stock\<close>, the handler of \<^verbatim>\<open>/stock\<close>, up to the quote. Lines 205 to 220 (the last row,
  the lookup in \<^verbatim>\<open>stock.info\<close>, floating point arithmetic and formatting) are the parameter
  \<open>quote\<close>, which yields the quote or raises.
\<close>

definition get_stock ::
  "unicode \<Rightarrow> ticker_provider \<Rightarrow> (ustr \<Rightarrow> frame \<Rightarrow> exn + (string \<times> string) list) \<Rightarrow> ustr option
     \<Rightarrow> response \<times> request list" where
  "get_stock ucd Ticker quote ticker_arg =
     (let ticker = strip ucd (upper ucd (args_get ticker_arg []))
      in if ticker = [] then ((400, Error_body ''No ticker provided''), [])
         else
           (let stock = Ticker ticker;
                req = History_period ''1d'' ''1m'' True
            in case stock req of
                 Inl e \<Rightarrow> ((500, Error_body ''Failed to process stock data''), [req])
               | Inr hist \<Rightarrow>
                   if rows hist = [] then ((404, Error_body ''No data found for this ticker''), [req])
                   else (case quote ticker hist of
                           Inl e \<Rightarrow> ((500, Error_body ''Failed to process stock data''), [req])
                         | Inr kvs \<Rightarrow> ((200, Quote_body kvs), [req]))))"

section \<open>Notions the statements use\<close>

text \<open>The time of day of the clock, in microseconds since midnight.\<close>

definition clock_us :: "datetime \<Rightarrow> int" where
  "clock_us now =
     ((int (hour now) * 60 + int (minute now)) * 60 + int (second now)) * 1000000
       + int (microsecond now)"

text \<open>An instant whose New York time of day lies in the trading window, 09:30 to 16:00.\<close>

definition market_time :: "zone \<Rightarrow> int \<Rightarrow> bool" where
  "market_time ny t = (minutes 570 \<le> time_of_day ny t \<and> time_of_day ny t \<le> minutes 960)"

text \<open>
  The bars of one session, as the handler computes them from the frame of a fetch that is
  not empty: lines 260 to 272 followed by the comprehension of lines 294 to 301.
\<close>

definition session_bars :: "zone \<Rightarrow> frame \<Rightarrow> exn + point list" where
  "session_bars ny data =
     (case market_data ny data of Inl e \<Rightarrow> Inl e | Inr md \<Rightarrow> iterrows_points md)"

text \<open>The samples of a frame that fall into the five minutes starting at \<open>lo\<close>, in the order
  in which the aggregation reads them.\<close>

definition bucket :: "zone \<Rightarrow> frame \<Rightarrow> int \<Rightarrow> row list" where
  "bucket ny data lo =
     filter (\<lambda>r. lo \<le> stamp r \<and> stamp r < lo + minutes 5)
       (sort_key stamp (filter (\<lambda>r. market_time ny (stamp r)) (rows data)))"

text \<open>
  The two calls of a 1d request: the session of the target date, and the session of the
  business day before it.
\<close>

definition primary_request :: "datetime \<Rightarrow> request" where
  "primary_request now = History_range (target_date now) (target_date now + 1) ''1m'' True"

definition fallback_request :: "datetime \<Rightarrow> request" where
  "fallback_request now =
     History_range (prev_trading_day (target_date now)) (prev_trading_day (target_date now) + 1)
       ''1m'' True"

text \<open>\<^verbatim>\<open>len(market_data)\<close> at line 274: the number of rows of the resampled frame.\<close>

definition len_market_data :: "zone \<Rightarrow> frame \<Rightarrow> nat" where
  "len_market_data ny data = (case market_data ny data of Inl e \<Rightarrow> 0 | Inr md \<Rightarrow> length (rows md))"

section \<open>Concrete sessions\<close>

text \<open>
  The two tables as the Unicode database has them: white space for every code point, upper
  case for the code points below U+0100 (a code point from U+0100 on is left as it is, so the
  table stands for the database on text below U+0100 only). The symbol AAPL, by its code
  points.
\<close>

definition latin1 :: unicode where
  "latin1 =
     \<lparr>toupper_full =
        (\<lambda>c. if 97 \<le> c \<and> c \<le> 122 then [c - 32]
              else if c = 181 then [924]
              else if c = 223 then [83, 83]
              else if 224 \<le> c \<and> c \<le> 254 \<and> c \<noteq> 247 then [c - 32]
              else if c = 255 then [376]
              else [c]),
      is_space =
        (\<lambda>c. c \<in> {9, 10, 11, 12, 13, 28, 29, 30, 31, 32, 133, 160, 5760, 8232, 8233, 8239,
                    8287, 12288}
              \<or> (8192 \<le> c \<and> c \<le> 8202))\<rparr>"

definition AAPL :: ustr where
  "AAPL = [65, 65, 80, 76]"

text \<open>
  New York on standard time (five hours behind UTC), the zone of the sessions below.
  Monday 8 January 2024 is the ordinal 738893; \<open>at_ny d h m\<close> is the instant at which the
  New York clock shows \<open>h:m\<close> on the day \<open>d\<close>.
\<close>

definition est :: zone where
  "est = \<lparr>utcoffset = (\<lambda>t. - 18000000000), localize = (\<lambda>w. w + 18000000000)\<rparr>"

definition at_ny :: "date \<Rightarrow> int \<Rightarrow> int \<Rightarrow> int" where
  "at_ny d h m = (d - 719163) * day_us + minutes (h * 60 + m) + 18000000000"

definition clock :: "date \<Rightarrow> nat \<Rightarrow> nat \<Rightarrow> datetime" where
  "clock d h m = \<lparr>today = d, hour = h, minute = m, second = 0, microsecond = 0\<rparr>"

text \<open>A one minute sample whose four prices are the same.\<close>

definition sample :: "int \<Rightarrow> real \<Rightarrow> int \<Rightarrow> row" where
  "sample t c v = \<lparr>stamp = t, Open = Some c, High = Some c, Low = Some c, Close = Some c,
                   Volume = Some v\<rparr>"

definition ny_frame :: "row list \<Rightarrow> frame" where
  "ny_frame rs = \<lparr>index_tz = Some America_New_York, rows = rs\<rparr>"

text \<open>A provider that is down, and one that has no data.\<close>

definition provider_down :: ticker_provider where
  "provider_down ticker req = Inl (ProviderError ''Connection refused'')"

definition provider_empty :: ticker_provider where
  "provider_empty ticker req = Inr (ny_frame [])"

definition no_quote :: "ustr \<Rightarrow> frame \<Rightarrow> exn + (string \<times> string) list" where
  "no_quote ticker hist = Inl (ValueError ''no quote'')"

text \<open>
  The samples of the scenario: 09:29, 09:31, 09:33 and 16:05 on Monday 8 January 2024, with
  the closes 100 to 103.
\<close>

definition scenario :: frame where
  "scenario = ny_frame
     [sample (at_ny 738893 9 29) 100 7,
      sample (at_ny 738893 9 31) 101 10,
      sample (at_ny 738893 9 33) 102 5,
      sample (at_ny 738893 16 5) 103 3]"

text \<open>
  A session of two samples in one bucket: the first has no open, the last has no close.
\<close>

definition nan_session :: frame where
  "nan_session = ny_frame
     [\<lparr>stamp = at_ny 738893 9 31, Open = None, High = Some 101, Low = Some 101,
       Close = Some 101, Volume = Some 10\<rparr>,
      \<lparr>stamp = at_ny 738893 9 33, Open = Some 102, High = Some 102, Low = Some 102,
       Close = None, Volume = Some 5\<rparr>]"

text \<open>
  A Monday session with a single sample and a Friday session with two, a provider that serves
  them for the symbol AAPL (and nothing for any other request or symbol), one that fails on
  the Monday, and one whose rows are not in the order of time.
\<close>

definition monday_thin :: frame where
  "monday_thin = ny_frame [sample (at_ny 738893 9 31) 101 10]"

definition friday_full :: frame where
  "friday_full = ny_frame [sample (at_ny 738890 9 31) 99 4, sample (at_ny 738890 9 36) 100 6]"

definition market :: ticker_provider where
  "market ticker req =
     (if ticker \<noteq> AAPL then Inr (ny_frame [])
      else if req = History_range 738893 738894 ''1m'' True then Inr monday_thin
      else if req = History_range 738890 738891 ''1m'' True then Inr friday_full
      else Inr (ny_frame []))"

definition flaky :: ticker_provider where
  "flaky ticker req =
     (if req = History_range 738893 738894 ''1m'' True
      then Inl (ProviderError ''Connection refused'')
      else Inr friday_full)"


section \<open>Session selection\<close>

lemma weekday_range: "0 \<le> weekday d \<and> weekday d < 7"
  by (simp add: weekday_def)

lemma open_le_now:
  assumes "minute now < 60" "second now < 60" "microsecond now < 1000000"
  shows "dt_le (now\<lparr>hour := 9, minute := 30, second := 0, microsecond := 0\<rparr>) now
           \<longleftrightarrow> minutes 570 \<le> clock_us now"
  using assms unfolding dt_le_def clock_us_def minutes_def
  by simp linarith

lemma now_le_close:
  assumes "minute now < 60" "second now < 60" "microsecond now < 1000000"
  shows "dt_le now (now\<lparr>hour := 16, minute := 0, second := 0, microsecond := 0\<rparr>)
           \<longleftrightarrow> clock_us now \<le> minutes 960"
  using assms unfolding dt_le_def clock_us_def minutes_def
  by simp linarith

lemma target_weekend:
  "5 \<le> weekday (today now) \<Longrightarrow> target_date now = today now - (weekday (today now) - 4) mod 7"
  by (simp add: target_date_def Let_def)

lemma target_weekdays:
  assumes "minute now < 60" "second now < 60" "microsecond now < 1000000"
    and "weekday (today now) < 5"
  shows "target_date now =
           (if minutes 570 \<le> clock_us now \<and> clock_us now \<le> minutes 960 then today now
            else today now - 1)"
  using assms(4) open_le_now[OF assms(1-3)] now_le_close[OF assms(1-3)]
  by (simp add: target_date_def Let_def)

text \<open>
  Claim C3. The session of a 1d request is a function of the New York clock alone. On a
  Saturday or a Sunday it is the Friday before, \<open>(weekday - 4) mod 7\<close> days back, whatever
  the time of day; on the other days it is today when the clock reads between 09:30 and 16:00,
  both included, and the calendar day before otherwise.
\<close>

theorem session_selection:
  assumes "minute now < 60" "second now < 60" "microsecond now < 1000000"
  shows "target_date now =
           (if weekday (today now) = 5 then today now - 1
            else if weekday (today now) = 6 then today now - 2
            else if minutes 570 \<le> clock_us now \<and> clock_us now \<le> minutes 960 then today now
            else today now - 1)
         \<and> (weekday (today now) \<ge> 5 \<longrightarrow>
              weekday (target_date now) = 4
              \<and> today now - target_date now = (weekday (today now) - 4) mod 7
              \<and> target_date (now\<lparr>hour := h, minute := m, second := s, microsecond := u\<rparr>)
                  = target_date now)"
proof (cases "5 \<le> weekday (today now)")
  case True
  have r: "weekday (today now) < 7" using weekday_range by blast
  from True r have w: "weekday (today now) = 5 \<or> weekday (today now) = 6" by arith
  have t: "target_date now = today now - (weekday (today now) - 4) mod 7"
    by (rule target_weekend[OF True])
  have t': "target_date (now\<lparr>hour := h, minute := m, second := s, microsecond := u\<rparr>)
              = today now - (weekday (today now) - 4) mod 7"
    using target_weekend[of "now\<lparr>hour := h, minute := m, second := s, microsecond := u\<rparr>"] True
    by simp
  have f: "weekday (target_date now) = 4"
    using w unfolding t by (auto simp: weekday_def) presburger+
  from w t t' f show ?thesis by auto
next
  case False
  then have "weekday (today now) < 5" by simp
  from target_weekdays[OF assms this] False show ?thesis by auto
qed

theorem session_selection_witness:
  "target_date (clock 738898 23 0) = 738897
   \<and> target_date (clock 738893 10 0) = 738893
   \<and> target_date (clock 738893 16 0) = 738893
   \<and> target_date (clock 738893 20 0) = 738892"
  using session_selection[of "clock 738898 23 0"] session_selection[of "clock 738893 10 0"]
    session_selection[of "clock 738893 16 0"] session_selection[of "clock 738893 20 0"]
  by (simp add: clock_def clock_us_def minutes_def weekday_def)

section \<open>The periods other than 1d\<close>

text \<open>
  Claim C8. For a period other than \<^verbatim>\<open>1d\<close> the handler makes exactly one call, the one its
  table gives: seven days by the hour for \<^verbatim>\<open>7d\<close>, one month by the day for \<^verbatim>\<open>30d\<close>, three
  months by the day for \<^verbatim>\<open>3mo\<close>, one year by the week for \<^verbatim>\<open>1y\<close>, and one month by the day
  for any other string. No call by dates is made, whatever the clock reads.
\<close>

theorem period_lookup:
  assumes "period \<noteq> ''1d''" and "strip ucd (upper ucd (args_get ticker_arg [])) \<noteq> []"
  shows "(period = ''7d'' \<longrightarrow>
            snd (get_stock_graph ucd ny Ticker now ticker_arg (Some period))
              = [History_period ''7d'' ''1h'' False])
       \<and> (period = ''30d'' \<longrightarrow>
            snd (get_stock_graph ucd ny Ticker now ticker_arg (Some period))
              = [History_period ''1mo'' ''1d'' False])
       \<and> (period = ''3mo'' \<longrightarrow>
            snd (get_stock_graph ucd ny Ticker now ticker_arg (Some period))
              = [History_period ''3mo'' ''1d'' False])
       \<and> (period = ''1y'' \<longrightarrow>
            snd (get_stock_graph ucd ny Ticker now ticker_arg (Some period))
              = [History_period ''1y'' ''1wk'' False])
       \<and> (period \<notin> {''7d'', ''30d'', ''3mo'', ''1y''} \<longrightarrow>
            snd (get_stock_graph ucd ny Ticker now ticker_arg (Some period))
              = [History_period ''1mo'' ''1d'' False])"
  using assms
  by (simp add: get_stock_graph_def graph_data_period_def period_request_def Let_def args_get_def
      split: sum.splits prod.splits)

theorem period_lookup_witness:
  "snd (get_stock_graph latin1 est provider_empty (clock 738893 10 0) (Some [97, 97, 112, 108])
          (Some ''1y''))
     = [History_period ''1y'' ''1wk'' False]
   \<and> snd (get_stock_graph latin1 est provider_empty (clock 738893 10 0) (Some [97, 97, 112, 108])
            (Some ''5d''))
     = [History_period ''1mo'' ''1d'' False]"
proof -
  have t: "strip latin1 (upper latin1 (args_get (Some [97, 97, 112, 108]) [])) \<noteq> []"
    by (simp add: strip_def upper_def args_get_def latin1_def)
  have a: "''1y'' \<noteq> ''1d''" by simp
  have b: "''5d'' \<noteq> ''1d''" by simp
  show ?thesis
    using period_lookup[OF a t, of est provider_empty "clock 738893 10 0"]
          period_lookup[OF b t, of est provider_empty "clock 738893 10 0"]
    by simp
qed

section \<open>The five minute bars\<close>

lemma market_hours_eq:
  "market_hours ny data =
     Inr (data\<lparr>index_tz := Some America_New_York,
               rows := filter (\<lambda>r. market_time ny (stamp r)) (rows data)\<rparr>)"
  by (simp add: market_hours_def tz_localize_def tz_convert_def between_time_def market_time_def)

lemma market_data_eq:
  "market_data ny data =
     Inr (resample_5T ny (data\<lparr>index_tz := Some America_New_York,
               rows := filter (\<lambda>r. market_time ny (stamp r)) (rows data)\<rparr>))"
  by (simp add: market_data_def market_hours_eq)

lemma rows_resample:
  "rows (resample_5T ny fr) =
     map (\<lambda>lo. agg lo (filter (\<lambda>r. lo \<le> stamp r \<and> stamp r < lo + minutes 5)
                          (sort_key stamp (rows fr))))
       (bins ny (sort_key stamp (rows fr)))"
  by (simp add: resample_5T_def Let_def)

lemma index_tz_resample: "index_tz (resample_5T ny fr) = index_tz fr"
  by (simp add: resample_5T_def Let_def)

lemma rows_market_data:
  "market_data ny data = Inr md \<Longrightarrow>
     index_tz md = Some America_New_York \<and>
     rows md = map (\<lambda>lo. agg lo (bucket ny data lo))
                 (bins ny (sort_key stamp (filter (\<lambda>r. market_time ny (stamp r)) (rows data))))"
  by (auto simp: market_data_eq rows_resample index_tz_resample bucket_def)


lemma volume_agg: "Volume (agg lo rs) \<noteq> None"
  by (simp add: agg_def agg_sum_def)

lemma stamp_agg: "stamp (agg lo rs) = lo"
  by (simp add: agg_def)

lemma points_total:
  assumes "tz \<noteq> None" and "\<forall>r\<in>set rs. Volume r \<noteq> None"
  shows "\<exists>ps. points tz rs = Inr ps
           \<and> map time ps = map stamp (filter (\<lambda>r. Close r \<noteq> None) rs)
           \<and> (\<forall>p\<in>set ps. \<exists>r\<in>set rs. Close r = Some (price p) \<and> time p = stamp r
                  \<and> open_price p = Open r \<and> high p = High r \<and> low p = Low r
                  \<and> (\<exists>v. Volume r = Some v \<and> volume p = float64 v))"
  using assms
proof (induction rs)
  case Nil
  then show ?case by simp
next
  case (Cons r rs)
  then obtain ps where ps: "points tz rs = Inr ps"
    "map time ps = map stamp (filter (\<lambda>r. Close r \<noteq> None) rs)"
    "\<forall>p\<in>set ps. \<exists>r\<in>set rs. Close r = Some (price p) \<and> time p = stamp r
                  \<and> open_price p = Open r \<and> high p = High r \<and> low p = Low r
                  \<and> (\<exists>v. Volume r = Some v \<and> volume p = float64 v)"
    by auto
  from Cons.prems obtain v where v: "Volume r = Some v" by auto
  show ?case
  proof (cases "Close r")
    case None
    with ps show ?thesis by auto
  next
    case (Some c)
    with ps v Cons.prems(1) show ?thesis
      by (auto simp: to_point_def)
  qed
qed

lemma session_bars_total:
  "\<exists>ps. session_bars ny data = Inr ps
     \<and> map time ps = filter (\<lambda>lo. agg_last (map Close (bucket ny data lo)) \<noteq> None)
          (bins ny (sort_key stamp (filter (\<lambda>r. market_time ny (stamp r)) (rows data))))
     \<and> (\<forall>p\<in>set ps.
          agg_last (map Close (bucket ny data (time p))) = Some (price p)
          \<and> open_price p = agg_first (map Open (bucket ny data (time p)))
          \<and> high p = agg_max (map High (bucket ny data (time p)))
          \<and> low p = agg_min (map Low (bucket ny data (time p)))
          \<and> volume p = float64 (int64 (sum_list (valid (map Volume (bucket ny data (time p)))))))"
proof -
  obtain md where md: "market_data ny data = Inr md" by (simp add: market_data_eq)
  let ?bs = "bins ny (sort_key stamp (filter (\<lambda>r. market_time ny (stamp r)) (rows data)))"
  from rows_market_data[OF md] have tz: "index_tz md \<noteq> None"
    and rs: "rows md = map (\<lambda>lo. agg lo (bucket ny data lo)) ?bs" by auto
  have vol: "\<forall>r\<in>set (rows md). Volume r \<noteq> None"
    unfolding rs by (auto simp: agg_def agg_sum_def)
  from points_total[OF tz vol] obtain ps where ps: "points (index_tz md) (rows md) = Inr ps"
    "map time ps = map stamp (filter (\<lambda>r. Close r \<noteq> None) (rows md))"
    "\<forall>p\<in>set ps. \<exists>r\<in>set (rows md). Close r = Some (price p) \<and> time p = stamp r
                  \<and> open_price p = Open r \<and> high p = High r \<and> low p = Low r
                  \<and> (\<exists>v. Volume r = Some v \<and> volume p = float64 v)"
    by blast
  have a: "session_bars ny data = Inr ps"
    by (simp add: session_bars_def md iterrows_points_def ps(1))
  have b: "map time ps = filter (\<lambda>lo. agg_last (map Close (bucket ny data lo)) \<noteq> None) ?bs"
    unfolding ps(2) rs by (simp add: filter_map comp_def agg_def)
  have c: "\<forall>p\<in>set ps.
          agg_last (map Close (bucket ny data (time p))) = Some (price p)
          \<and> open_price p = agg_first (map Open (bucket ny data (time p)))
          \<and> high p = agg_max (map High (bucket ny data (time p)))
          \<and> low p = agg_min (map Low (bucket ny data (time p)))
          \<and> volume p = float64 (int64 (sum_list (valid (map Volume (bucket ny data (time p))))))"
  proof
    fix p assume "p \<in> set ps"
    with ps(3) obtain r where r: "r \<in> set (rows md)" "Close r = Some (price p)" "time p = stamp r"
      "open_price p = Open r" "high p = High r" "low p = Low r"
      "\<exists>v. Volume r = Some v \<and> volume p = float64 v"
      by blast
    from r(1) obtain lo where "r = agg lo (bucket ny data lo)" unfolding rs by auto
    with r show "agg_last (map Close (bucket ny data (time p))) = Some (price p)
          \<and> open_price p = agg_first (map Open (bucket ny data (time p)))
          \<and> high p = agg_max (map High (bucket ny data (time p)))
          \<and> low p = agg_min (map Low (bucket ny data (time p)))
          \<and> volume p = float64 (int64 (sum_list (valid (map Volume (bucket ny data (time p))))))"
      by (auto simp: agg_def agg_sum_def)
  qed
  from a b c show ?thesis by blast
qed

lemma valid_append: "valid (xs @ ys) = valid xs @ valid ys"
  by (induction xs rule: valid.induct) simp_all

lemma valid_set: "set (valid xs) = {v. Some v \<in> set xs}"
  by (induction xs rule: valid.induct) auto

lemma agg_first_eq: "agg_first xs = (if valid xs = [] then None else Some (hd (valid xs)))"
  by (simp add: agg_first_def split: list.splits)

lemma agg_last_eq: "agg_last xs = (if valid xs = [] then None else Some (last (valid xs)))"
  by (cases "valid xs" rule: rev_cases) (simp_all add: agg_last_def)

lemma agg_max_eq: "agg_max xs = (if valid xs = [] then None else Some (Max (set (valid xs))))"
proof (cases "valid xs")
  case Nil
  then show ?thesis by (simp add: agg_max_def)
next
  case (Cons v vs)
  have "fold max vs v = Max (set (v # vs))" by (rule Max.set_eq_fold[symmetric])
  with Cons show ?thesis by (simp add: agg_max_def)
qed

lemma agg_min_eq: "agg_min xs = (if valid xs = [] then None else Some (Min (set (valid xs))))"
proof (cases "valid xs")
  case Nil
  then show ?thesis by (simp add: agg_min_def)
next
  case (Cons v vs)
  have "fold min vs v = Min (set (v # vs))" by (rule Min.set_eq_fold[symmetric])
  with Cons show ?thesis by (simp add: agg_min_def)
qed

lemma agg_first_hd: "xs \<noteq> [] \<Longrightarrow> hd xs = Some v \<Longrightarrow> agg_first xs = Some v"
  by (cases xs) (simp_all add: agg_first_def)

lemma agg_last_last: "xs \<noteq> [] \<Longrightarrow> last xs = Some v \<Longrightarrow> agg_last xs = Some v"
  by (cases xs rule: rev_cases) (simp_all add: agg_last_def valid_append)

lemma bucket_sorted: "sorted (map stamp (bucket ny data lo))"
  unfolding bucket_def by (simp add: sorted_filter)

lemma bucket_stable:
  "filter (\<lambda>r. stamp r = t) (bucket ny data lo) =
     (if lo \<le> t \<and> t < lo + minutes 5 \<and> market_time ny t
      then filter (\<lambda>r. stamp r = t) (rows data) else [])"
proof -
  have "filter (\<lambda>r. stamp r = t) (bucket ny data lo) =
          filter (\<lambda>r. lo \<le> stamp r \<and> stamp r < lo + minutes 5)
            (filter (\<lambda>r. stamp r = t)
               (sort_key stamp (filter (\<lambda>r. market_time ny (stamp r)) (rows data))))"
    unfolding bucket_def by (simp add: conj_commute)
  also have "\<dots> = filter (\<lambda>r. lo \<le> stamp r \<and> stamp r < lo + minutes 5)
            (filter (\<lambda>r. stamp r = t) (filter (\<lambda>r. market_time ny (stamp r)) (rows data)))"
    by (simp only: sort_key_stable)
  also have "\<dots> = (if lo \<le> t \<and> t < lo + minutes 5 \<and> market_time ny t
      then filter (\<lambda>r. stamp r = t) (rows data) else [])"
    by (auto intro: filter_cong)
  finally show ?thesis .
qed

lemma bucket_members:
  "r \<in> set (bucket ny data lo) \<longleftrightarrow>
     r \<in> set (rows data) \<and> market_time ny (stamp r) \<and> lo \<le> stamp r \<and> stamp r < lo + minutes 5"
  by (auto simp: bucket_def)

lemma scenario_bars:
  "session_bars est scenario =
     Inr [\<lparr>time = at_ny 738893 9 30, price = 102, open_price = Some 101, high = Some 102,
           low = Some 101, volume = 15\<rparr>]"
  by (simp add: session_bars_def market_data_def market_hours_def tz_convert_def tz_localize_def
      between_time_def time_of_day_def local_time_def resample_5T_def bins_def normalize_def
      scenario_def ny_frame_def sample_def at_ny_def est_def day_us_def minutes_def Let_def
      iterrows_points_def to_point_def agg_def agg_first_def agg_last_def agg_max_def
      agg_min_def agg_sum_def int64_def float64_def)


lemma graph_data_1d_eq:
  "graph_data_1d ny history now =
     (let t = target_date now; req = History_range t (t + 1) ''1m'' True;
          p = prev_trading_day t; req2 = History_range p (p + 1) ''1m'' True
      in case history req of
           Inl e \<Rightarrow> (Inl e, [req])
         | Inr data \<Rightarrow>
             if rows data = [] then (Inr [], [req])
             else if 2 \<le> len_market_data ny data then (session_bars ny data, [req])
             else (case history req2 of
                     Inl e \<Rightarrow> (Inl e, [req, req2])
                   | Inr data2 \<Rightarrow>
                       if rows data2 = [] then (Inr [], [req, req2])
                       else (session_bars ny data2, [req, req2])))"
  by (auto simp: graph_data_1d_def Let_def len_market_data_def session_bars_def market_data_eq
      iterrows_points_def empty_frame_def split: sum.splits)




lemma floor_mult: "(x::int) - x mod f = x div f * f"
  by (simp add: minus_mod_eq_div_mult)

lemma bins_Cons:
  fixes ny x xs
  defines "F \<equiv> minutes 5"
    and "org \<equiv> normalize ny (stamp x)"
  defines "a \<equiv> (stamp x - org) div F"
    and "b \<equiv> (stamp (last (x # xs)) - org) div F"
  shows "bins ny (x # xs) = map (\<lambda>k. org + a * F + int k * F) [0 ..< nat (b - a + 1)]"
proof -
  have F: "F = 300000000" by (simp add: F_def minutes_def)
  let ?first = "stamp x" and ?lst = "stamp (last (x # xs))"
  have fr: "(if (?first - org) mod F > 0 then ?first - (?first - org) mod F else ?first)
              = org + a * F"
  proof -
    have "0 \<le> (?first - org) mod F" using F by simp
    then have "(if (?first - org) mod F > 0 then ?first - (?first - org) mod F else ?first)
                 = ?first - (?first - org) mod F" by auto
    also have "\<dots> = org + ((?first - org) - (?first - org) mod F)" by simp
    also have "\<dots> = org + a * F" unfolding a_def by (simp only: floor_mult)
    finally show ?thesis .
  qed
  have lr: "(if (?lst - org) mod F > 0 then ?lst + (F - (?lst - org) mod F) else ?lst + F)
              = org + (b + 1) * F"
  proof -
    have "0 \<le> (?lst - org) mod F" using F by simp
    then have "(if (?lst - org) mod F > 0 then ?lst + (F - (?lst - org) mod F) else ?lst + F)
                 = ?lst + F - (?lst - org) mod F" by auto
    also have "\<dots> = org + ((?lst - org) - (?lst - org) mod F) + F" by simp
    also have "\<dots> = org + b * F + F" unfolding b_def by (simp only: floor_mult)
    also have "\<dots> = org + (b + 1) * F" by (simp add: algebra_simps)
    finally show ?thesis .
  qed
  have d: "(org + (b + 1) * F - (org + a * F)) div F = b - a + 1"
  proof -
    have "org + (b + 1) * F - (org + a * F) = (b - a + 1) * F" by (simp add: algebra_simps)
    then show ?thesis using F by simp
  qed
  show ?thesis
    unfolding bins_def list.case Let_def F_def[symmetric] org_def[symmetric] fr lr d ..
qed

lemma sorted_le_last:
  "sorted (map f xs) \<Longrightarrow> x \<in> set xs \<Longrightarrow> f x \<le> f (last xs)"
  by (induction xs) auto

lemma floor_bounds:
  fixes x f :: int
  assumes "0 < f"
  shows "x div f * f \<le> x \<and> x < x div f * f + f"
proof -
  have "x = x div f * f + x mod f" by simp
  moreover have "0 \<le> x mod f" using assms by simp
  moreover have "x mod f < f" using assms by simp
  ultimately show ?thesis by linarith
qed

lemma bins_cover:
  assumes s: "sorted (map stamp rs)" and r: "r \<in> set rs"
  shows "\<exists>lo\<in>set (bins ny rs). lo \<le> stamp r \<and> stamp r < lo + minutes 5"
proof (cases rs)
  case Nil
  with r show ?thesis by simp
next
  case (Cons x xs)
  define F where "F = minutes 5"
  define org where "org = normalize ny (stamp x)"
  define a where "a = (stamp x - org) div F"
  define b where "b = (stamp (last (x # xs)) - org) div F"
  define c where "c = (stamp r - org) div F"
  have F: "0 < F" by (simp add: F_def minutes_def)
  have bs: "bins ny rs = map (\<lambda>k. org + a * F + int k * F) [0 ..< nat (b - a + 1)]"
    unfolding Cons F_def org_def a_def b_def by (rule bins_Cons)
  from s r Cons have lo: "stamp x \<le> stamp r" by auto
  from sorted_le_last[OF s r] Cons have hi: "stamp r \<le> stamp (last (x # xs))" by simp
  from lo F have ac: "a \<le> c" unfolding a_def c_def by (simp add: zdiv_mono1)
  from hi F have cb: "c \<le> b" unfolding b_def c_def by (simp add: zdiv_mono1)
  define k where "k = nat (c - a)"
  from ac cb have k: "k < nat (b - a + 1)" "int k = c - a" by (simp_all add: k_def)
  have e: "org + a * F + int k * F = org + c * F" unfolding k(2) by (simp add: algebra_simps)
  have m: "org + a * F + int k * F \<in> set (bins ny rs)"
    unfolding bs set_map set_upt using k(1) by (intro image_eqI[where x = k]) simp_all
  from floor_bounds[OF F, of "stamp r - org"]
  have "org + c * F \<le> stamp r \<and> stamp r < org + c * F + F" unfolding c_def by linarith
  with m e show ?thesis unfolding F_def by auto
qed

lemma valid_nonempty: "Some v \<in> set xs \<Longrightarrow> valid xs \<noteq> []"
  using valid_set[of xs] by (metis (mono_tags, lifting) empty_iff list.set(1) mem_Collect_eq)

lemma int64_id: "- (2 ^ 63) \<le> x \<Longrightarrow> x < 2 ^ 63 \<Longrightarrow> int64 x = x"
  by (simp add: int64_def)

lemma float64_id: "\<bar>x\<bar> < 2 ^ 53 \<Longrightarrow> float64 x = x"
  by (simp add: float64_def)

lemma volume_exact: "\<bar>x\<bar> < 2 ^ 53 \<Longrightarrow> float64 (int64 x) = x"
proof -
  assume a: "\<bar>x\<bar> < 2 ^ 53"
  then have "- (2 ^ 63) \<le> x" "x < 2 ^ 63" by simp_all
  then have "int64 x = x" by (rule int64_id)
  with a show ?thesis by (simp add: float64_id)
qed

lemma bar_fields:
  assumes "agg_last (map Close b) = Some (price p)"
    and "open_price p = agg_first (map Open b)"
    and "high p = agg_max (map High b)"
    and "low p = agg_min (map Low b)"
    and "volume p = float64 (int64 (sum_list (valid (map Volume b))))"
  shows "b \<noteq> []
     \<and> open_price p = (if valid (map Open b) = [] then None else Some (hd (valid (map Open b))))
     \<and> (\<forall>v. Open (hd b) = Some v \<longrightarrow> open_price p = Some v)
     \<and> high p = (if valid (map High b) = [] then None else Some (Max (set (valid (map High b)))))
     \<and> low p = (if valid (map Low b) = [] then None else Some (Min (set (valid (map Low b)))))
     \<and> valid (map Close b) \<noteq> [] \<and> price p = last (valid (map Close b))
     \<and> (\<forall>c. Close (last b) = Some c \<longrightarrow> price p = c)
     \<and> volume p = float64 (int64 (sum_list (valid (map Volume b))))
     \<and> (\<bar>sum_list (valid (map Volume b))\<bar> < 2 ^ 53 \<longrightarrow>
          volume p = sum_list (valid (map Volume b)))"
proof -
  from assms(1) have c: "valid (map Close b) \<noteq> []" "price p = last (valid (map Close b))"
    by (auto simp: agg_last_eq split: if_splits)
  from c(1) have ne: "b \<noteq> []" by auto
  have o: "\<forall>v. Open (hd b) = Some v \<longrightarrow> open_price p = Some v"
    using ne assms(2) agg_first_hd[of "map Open b"] by (simp add: hd_map)
  have l: "\<forall>c. Close (last b) = Some c \<longrightarrow> price p = c"
    using ne assms(1) agg_last_last[of "map Close b"] by (auto simp: last_map)
  have v: "\<bar>sum_list (valid (map Volume b))\<bar> < 2 ^ 53 \<longrightarrow>
          volume p = sum_list (valid (map Volume b))"
    unfolding assms(5) using volume_exact by blast
  from c ne o l v assms(2-5) show ?thesis
    by (simp add: agg_first_eq agg_max_eq agg_min_eq)
qed

lemma bars_cover:
  assumes ps: "map time ps = filter (\<lambda>lo. agg_last (map Close (bucket ny data lo)) \<noteq> None)
          (bins ny (sort_key stamp (filter (\<lambda>r. market_time ny (stamp r)) (rows data))))"
    and r: "r \<in> set (rows data)" "market_time ny (stamp r)" "Close r \<noteq> None"
  shows "\<exists>p\<in>set ps. r \<in> set (bucket ny data (time p))"
proof -
  let ?rs = "sort_key stamp (filter (\<lambda>r. market_time ny (stamp r)) (rows data))"
  have s: "sorted (map stamp ?rs)" by simp
  from r have m: "r \<in> set ?rs" by simp
  from bins_cover[OF s m] obtain lo where lo: "lo \<in> set (bins ny ?rs)"
    "lo \<le> stamp r" "stamp r < lo + minutes 5" by blast
  from r lo have b: "r \<in> set (bucket ny data lo)" by (simp add: bucket_members)
  from r(3) obtain c where "Close r = Some c" by auto
  with b have "Some c \<in> set (map Close (bucket ny data lo))" by force
  then have "valid (map Close (bucket ny data lo)) \<noteq> []" by (rule valid_nonempty)
  then have "agg_last (map Close (bucket ny data lo)) \<noteq> None" by (simp add: agg_last_eq)
  with lo(1) have "lo \<in> set (map time ps)" unfolding ps by simp
  then obtain p where "p \<in> set ps" "time p = lo" by auto
  with b show ?thesis by blast
qed

lemma nan_session_bars:
  "session_bars est nan_session =
     Inr [\<lparr>time = at_ny 738893 9 30, price = 101, open_price = Some 102, high = Some 102,
           low = Some 101, volume = 15\<rparr>]"
  by (simp add: session_bars_def market_data_def market_hours_def tz_convert_def tz_localize_def
      between_time_def time_of_day_def local_time_def resample_5T_def bins_def normalize_def
      nan_session_def ny_frame_def at_ny_def est_def day_us_def minutes_def Let_def
      iterrows_points_def to_point_def agg_def agg_first_def agg_last_def agg_max_def
      agg_min_def agg_sum_def int64_def float64_def)

lemma nan_session_bucket: "bucket est nan_session (at_ny 738893 9 30) = rows nan_session"
  by (simp add: bucket_def market_time_def time_of_day_def local_time_def nan_session_def
      ny_frame_def at_ny_def est_def day_us_def minutes_def)

text \<open>
  Claim C5, amended. The samples 09:29 (close 100), 09:31 (close 101, volume 10), 09:33
  (close 102, volume 5) and 16:05 (close 103) give exactly one bar, the one of 09:30 to 09:35,
  with open 101, close 102, high 102, low 101 and volume 15. In general every bar is the
  reduction of its bucket, which is not empty: the samples of the five minutes from the bar's
  time that lie in market hours, in the order of their timestamps, samples of one timestamp in
  the order of the input. Its open is the first open of the bucket that is not NaN, which is
  the open of the first sample only when that sample has one; its close is the last close that
  is not NaN, which is the close of the last sample only when that sample has one; its high
  and low are the greatest high and the least low that are not NaN. Its volume is the sum of
  the volumes in 64 bit arithmetic, read as a double, which is the sum of the volumes when
  that sum is below \<open>2 ^ 53\<close> in magnitude. Every sample in market hours that has a close lies
  in the bucket of a bar.
\<close>

theorem bucket_reduction:
  "session_bars est scenario =
     Inr [\<lparr>time = at_ny 738893 9 30, price = 102, open_price = Some 101, high = Some 102,
           low = Some 101, volume = 15\<rparr>]
   \<and> (\<exists>ps. session_bars ny data = Inr ps
        \<and> (\<forall>p\<in>set ps.
             bucket ny data (time p) \<noteq> []
           \<and> sorted (map stamp (bucket ny data (time p)))
           \<and> (\<forall>t. filter (\<lambda>r. stamp r = t) (bucket ny data (time p)) =
                   (if time p \<le> t \<and> t < time p + minutes 5 \<and> market_time ny t
                    then filter (\<lambda>r. stamp r = t) (rows data) else []))
           \<and> open_price p =
               (if valid (map Open (bucket ny data (time p))) = [] then None
                else Some (hd (valid (map Open (bucket ny data (time p))))))
           \<and> (\<forall>v. Open (hd (bucket ny data (time p))) = Some v \<longrightarrow> open_price p = Some v)
           \<and> high p =
               (if valid (map High (bucket ny data (time p))) = [] then None
                else Some (Max (set (valid (map High (bucket ny data (time p)))))))
           \<and> low p =
               (if valid (map Low (bucket ny data (time p))) = [] then None
                else Some (Min (set (valid (map Low (bucket ny data (time p)))))))
           \<and> valid (map Close (bucket ny data (time p))) \<noteq> []
           \<and> price p = last (valid (map Close (bucket ny data (time p))))
           \<and> (\<forall>c. Close (last (bucket ny data (time p))) = Some c \<longrightarrow> price p = c)
           \<and> volume p = float64 (int64 (sum_list (valid (map Volume (bucket ny data (time p))))))
           \<and> (\<bar>sum_list (valid (map Volume (bucket ny data (time p))))\<bar> < 2 ^ 53 \<longrightarrow>
                volume p = sum_list (valid (map Volume (bucket ny data (time p))))))
        \<and> (\<forall>r\<in>set (rows data). market_time ny (stamp r) \<and> Close r \<noteq> None \<longrightarrow>
             (\<exists>p\<in>set ps. r \<in> set (bucket ny data (time p)))))"
proof -
  from session_bars_total[of ny data] obtain ps where ps: "session_bars ny data = Inr ps"
    "map time ps = filter (\<lambda>lo. agg_last (map Close (bucket ny data lo)) \<noteq> None)
          (bins ny (sort_key stamp (filter (\<lambda>r. market_time ny (stamp r)) (rows data))))"
    "\<forall>p\<in>set ps.
          agg_last (map Close (bucket ny data (time p))) = Some (price p)
          \<and> open_price p = agg_first (map Open (bucket ny data (time p)))
          \<and> high p = agg_max (map High (bucket ny data (time p)))
          \<and> low p = agg_min (map Low (bucket ny data (time p)))
          \<and> volume p = float64 (int64 (sum_list (valid (map Volume (bucket ny data (time p))))))"
    by blast
  have a: "\<forall>p\<in>set ps.
             bucket ny data (time p) \<noteq> []
           \<and> sorted (map stamp (bucket ny data (time p)))
           \<and> (\<forall>t. filter (\<lambda>r. stamp r = t) (bucket ny data (time p)) =
                   (if time p \<le> t \<and> t < time p + minutes 5 \<and> market_time ny t
                    then filter (\<lambda>r. stamp r = t) (rows data) else []))
           \<and> open_price p =
               (if valid (map Open (bucket ny data (time p))) = [] then None
                else Some (hd (valid (map Open (bucket ny data (time p))))))
           \<and> (\<forall>v. Open (hd (bucket ny data (time p))) = Some v \<longrightarrow> open_price p = Some v)
           \<and> high p =
               (if valid (map High (bucket ny data (time p))) = [] then None
                else Some (Max (set (valid (map High (bucket ny data (time p)))))))
           \<and> low p =
               (if valid (map Low (bucket ny data (time p))) = [] then None
                else Some (Min (set (valid (map Low (bucket ny data (time p)))))))
           \<and> valid (map Close (bucket ny data (time p))) \<noteq> []
           \<and> price p = last (valid (map Close (bucket ny data (time p))))
           \<and> (\<forall>c. Close (last (bucket ny data (time p))) = Some c \<longrightarrow> price p = c)
           \<and> volume p = float64 (int64 (sum_list (valid (map Volume (bucket ny data (time p))))))
           \<and> (\<bar>sum_list (valid (map Volume (bucket ny data (time p))))\<bar> < 2 ^ 53 \<longrightarrow>
                volume p = sum_list (valid (map Volume (bucket ny data (time p)))))"
  proof
    fix p assume "p \<in> set ps"
    with ps(3) have f: "agg_last (map Close (bucket ny data (time p))) = Some (price p)"
      "open_price p = agg_first (map Open (bucket ny data (time p)))"
      "high p = agg_max (map High (bucket ny data (time p)))"
      "low p = agg_min (map Low (bucket ny data (time p)))"
      "volume p = float64 (int64 (sum_list (valid (map Volume (bucket ny data (time p))))))"
      by blast+
    from bar_fields[OF f] bucket_sorted[of ny data "time p"] bucket_stable[of _ ny data "time p"]
    show "bucket ny data (time p) \<noteq> []
           \<and> sorted (map stamp (bucket ny data (time p)))
           \<and> (\<forall>t. filter (\<lambda>r. stamp r = t) (bucket ny data (time p)) =
                   (if time p \<le> t \<and> t < time p + minutes 5 \<and> market_time ny t
                    then filter (\<lambda>r. stamp r = t) (rows data) else []))
           \<and> open_price p =
               (if valid (map Open (bucket ny data (time p))) = [] then None
                else Some (hd (valid (map Open (bucket ny data (time p))))))
           \<and> (\<forall>v. Open (hd (bucket ny data (time p))) = Some v \<longrightarrow> open_price p = Some v)
           \<and> high p =
               (if valid (map High (bucket ny data (time p))) = [] then None
                else Some (Max (set (valid (map High (bucket ny data (time p)))))))
           \<and> low p =
               (if valid (map Low (bucket ny data (time p))) = [] then None
                else Some (Min (set (valid (map Low (bucket ny data (time p)))))))
           \<and> valid (map Close (bucket ny data (time p))) \<noteq> []
           \<and> price p = last (valid (map Close (bucket ny data (time p))))
           \<and> (\<forall>c. Close (last (bucket ny data (time p))) = Some c \<longrightarrow> price p = c)
           \<and> volume p = float64 (int64 (sum_list (valid (map Volume (bucket ny data (time p))))))
           \<and> (\<bar>sum_list (valid (map Volume (bucket ny data (time p))))\<bar> < 2 ^ 53 \<longrightarrow>
                volume p = sum_list (valid (map Volume (bucket ny data (time p)))))"
      by blast
  qed
  have b: "\<forall>r\<in>set (rows data). market_time ny (stamp r) \<and> Close r \<noteq> None \<longrightarrow>
             (\<exists>p\<in>set ps. r \<in> set (bucket ny data (time p)))"
    using bars_cover[OF ps(2)] by blast
  from scenario_bars ps(1) a b show ?thesis by blast
qed

theorem bucket_reduction_witness:
  "valid (map Close (bucket est scenario (at_ny 738893 9 30))) \<noteq> []
   \<and> last (valid (map Close (bucket est scenario (at_ny 738893 9 30)))) = 102
   \<and> float64 (int64 (sum_list (valid (map Volume (bucket est scenario (at_ny 738893 9 30))))))
       = 15"
proof -
  let ?bar = "\<lparr>time = at_ny 738893 9 30, price = 102, open_price = Some 101, high = Some 102,
           low = Some 101, volume = 15\<rparr>"
  from bucket_reduction[of est scenario]
  have s: "session_bars est scenario = Inr [?bar]" by blast
  from bucket_reduction[of est scenario] obtain ps where ps: "session_bars est scenario = Inr ps"
    "\<forall>p\<in>set ps. valid (map Close (bucket est scenario (time p))) \<noteq> []
           \<and> price p = last (valid (map Close (bucket est scenario (time p))))
           \<and> volume p = float64 (int64 (sum_list (valid (map Volume (bucket est scenario (time p))))))"
    by blast
  from s ps(1) have "ps = [?bar]" by simp
  with ps(2) show ?thesis by simp
qed

theorem bucket_reduction_counterexample:
  "session_bars est nan_session =
     Inr [\<lparr>time = at_ny 738893 9 30, price = 101, open_price = Some 102, high = Some 102,
           low = Some 101, volume = 15\<rparr>]
   \<and> bucket est nan_session (at_ny 738893 9 30) = rows nan_session
   \<and> Open (hd (rows nan_session)) = None
   \<and> Close (hd (rows nan_session)) = Some 101
   \<and> Open (last (rows nan_session)) = Some 102
   \<and> Close (last (rows nan_session)) = None"
  by (simp add: nan_session_bars nan_session_bucket) (simp add: nan_session_def ny_frame_def)

section \<open>Market hours\<close>

text \<open>
  Claim C4. In the 1d path a frame becomes a frame in New York time that keeps exactly the
  samples whose New York time of day lies between 09:30 and 16:00, both ends included; the
  timestamps of a frame without a zone are read as UTC (the frame is treated as the same frame
  labelled UTC). A sample outside these hours takes part in no bar: the bars are the same
  without it.
\<close>

theorem market_hours_filter:
  "market_hours ny data =
      Inr (data\<lparr>index_tz := Some America_New_York,
                rows := filter (\<lambda>r. market_time ny (stamp r)) (rows data)\<rparr>)
   \<and> (market_time ny t \<longleftrightarrow>
         minutes 570 \<le> (t + utcoffset ny t) mod day_us \<and> (t + utcoffset ny t) mod day_us \<le> minutes 960)
   \<and> (index_tz data = None \<longrightarrow> market_hours ny data = market_hours ny (data\<lparr>index_tz := Some UTC\<rparr>))
   \<and> (\<not> market_time ny (stamp r) \<longrightarrow>
        session_bars ny (data\<lparr>rows := xs @ r # ys\<rparr>) = session_bars ny (data\<lparr>rows := xs @ ys\<rparr>))"
  by (simp add: market_hours_eq session_bars_def market_data_eq market_time_def time_of_day_def
      local_time_def)

theorem market_hours_filter_witness:
  "\<not> market_time est (at_ny 738893 9 29)
   \<and> session_bars est (ny_frame [sample (at_ny 738893 9 29) 100 7, sample (at_ny 738893 9 31) 101 10])
       = session_bars est (ny_frame [sample (at_ny 738893 9 31) 101 10])"
proof -
  have a: "\<not> market_time est (stamp (sample (at_ny 738893 9 29) 100 7))"
    by (simp add: market_time_def time_of_day_def local_time_def est_def at_ny_def sample_def
        day_us_def minutes_def)
  from a market_hours_filter[of est "ny_frame []" _ "sample (at_ny 738893 9 29) 100 7" "[]"
      "[sample (at_ny 738893 9 31) 101 10]"]
  show ?thesis by (simp add: ny_frame_def sample_def)
qed



section \<open>The concrete sessions, evaluated\<close>

lemmas eval_defs = session_bars_def market_data_def market_hours_def tz_convert_def tz_localize_def
      between_time_def time_of_day_def local_time_def resample_5T_def bins_def normalize_def
      ny_frame_def sample_def at_ny_def est_def day_us_def minutes_def Let_def
      iterrows_points_def to_point_def agg_def agg_first_def agg_last_def agg_max_def
      agg_min_def agg_sum_def int64_def float64_def

lemma monday_thin_bars:
  "session_bars est monday_thin =
     Inr [\<lparr>time = at_ny 738893 9 30, price = 101, open_price = Some 101, high = Some 101,
           low = Some 101, volume = 10\<rparr>]"
  by (simp add: eval_defs monday_thin_def)

lemma friday_full_bars:
  "session_bars est friday_full =
     Inr [\<lparr>time = at_ny 738890 9 30, price = 99, open_price = Some 99, high = Some 99,
           low = Some 99, volume = 4\<rparr>,
          \<lparr>time = at_ny 738890 9 35, price = 100, open_price = Some 100, high = Some 100,
           low = Some 100, volume = 6\<rparr>]"
  by (simp add: eval_defs friday_full_def upt_rec[of 0] upt_rec[of "Suc 0"]
      upt_rec[of "Suc (Suc 0)"])

lemma monday_thin_len: "len_market_data est monday_thin = 1"
  by (simp add: len_market_data_def eval_defs monday_thin_def)

lemma monday_10: "target_date (clock 738893 10 0) = 738893"
  by (simp add: target_date_def clock_def weekday_def dt_le_def Let_def)

lemma tuesday_10: "target_date (clock 738894 10 0) = 738894"
  by (simp add: target_date_def clock_def weekday_def dt_le_def Let_def)

lemma prev_trading_day_eq:
  "prev_trading_day d = (if weekday d = 0 then d - 3 else if weekday d = 6 then d - 2 else d - 1)"
proof -
  have r: "0 \<le> weekday d \<and> weekday d < 7" by (rule weekday_range)
  show ?thesis using r by (auto simp: prev_trading_day_def BDay_apply_def Let_def)
qed

lemma prev_trading_day_weekday: "weekday (prev_trading_day d) \<le> 4"
proof -
  have r: "0 \<le> weekday d \<and> weekday d < 7" by (rule weekday_range)
  show ?thesis unfolding prev_trading_day_eq using r
    by (auto simp: weekday_def) presburger+
qed

lemma monday_prev: "prev_trading_day 738893 = 738890"
  by (simp add: prev_trading_day_eq weekday_def)

lemma rows_monday_thin: "rows monday_thin \<noteq> []"
  by (simp add: monday_thin_def ny_frame_def)

lemma rows_friday_full: "rows friday_full \<noteq> []"
  by (simp add: friday_full_def ny_frame_def)

lemma market_monday_1d:
  "graph_data_1d est (market AAPL) (clock 738893 10 0) =
     (session_bars est friday_full,
      [History_range 738893 738894 ''1m'' True, History_range 738890 738891 ''1m'' True])"
  by (simp add: graph_data_1d_eq monday_10 monday_prev market_def rows_monday_thin
      rows_friday_full monday_thin_len Let_def)

lemma market_tuesday_1d:
  "graph_data_1d est (market AAPL) (clock 738894 10 0)
     = (Inr [], [History_range 738894 738895 ''1m'' True])"
  by (simp add: graph_data_1d_eq tuesday_10 market_def ny_frame_def Let_def)

lemma flaky_monday_1d:
  "graph_data_1d est (flaky AAPL) (clock 738893 10 0) =
     (Inl (ProviderError ''Connection refused''), [History_range 738893 738894 ''1m'' True])"
  by (simp add: graph_data_1d_eq monday_10 flaky_def Let_def)

lemma aapl: "strip latin1 (upper latin1 (args_get (Some AAPL) [])) = AAPL"
  by (simp add: strip_def upper_def args_get_def latin1_def AAPL_def)

lemma aapl_ne: "AAPL \<noteq> []"
  by (simp add: AAPL_def)

section \<open>The flow of a request\<close>

lemma graph_data_1d_flow:
  "graph_data_1d ny history now =
     (case history (primary_request now) of
        Inl e \<Rightarrow> (Inl e, [primary_request now])
      | Inr data \<Rightarrow>
          if rows data = [] then (Inr [], [primary_request now])
          else if 2 \<le> len_market_data ny data then (session_bars ny data, [primary_request now])
          else (case history (fallback_request now) of
                  Inl e \<Rightarrow> (Inl e, [primary_request now, fallback_request now])
                | Inr data2 \<Rightarrow>
                    if rows data2 = [] then (Inr [], [primary_request now, fallback_request now])
                    else (session_bars ny data2, [primary_request now, fallback_request now])))"
  unfolding graph_data_1d_eq primary_request_def fallback_request_def Let_def by (rule refl)

lemma handler_1d:
  assumes "strip ucd (upper ucd (args_get ticker_arg [])) \<noteq> []"
  shows "get_stock_graph ucd ny Ticker now ticker_arg (Some ''1d'') =
     (case fst (graph_data_1d ny (Ticker (strip ucd (upper ucd (args_get ticker_arg [])))) now) of
        Inl e \<Rightarrow> (500, Failure_body (str e)
                   (codes ''Failed to fetch 1d data for ''
                      @ strip ucd (upper ucd (args_get ticker_arg []))))
      | Inr gd \<Rightarrow> if gd = [] then (404, Error_body ''No valid data points after processing'')
                  else (200, Graph_body (strip ucd (upper ucd (args_get ticker_arg []))) ''1d'' gd now),
      snd (graph_data_1d ny (Ticker (strip ucd (upper ucd (args_get ticker_arg [])))) now))"
  using assms
  by (simp add: get_stock_graph_def Let_def args_get_def split: prod.splits sum.splits)

lemma handler_period:
  assumes "strip ucd (upper ucd (args_get ticker_arg [])) \<noteq> []" and "period \<noteq> ''1d''"
  shows "get_stock_graph ucd ny Ticker now ticker_arg (Some period) =
     (case fst (graph_data_period (Ticker (strip ucd (upper ucd (args_get ticker_arg [])))) period) of
        Inl e \<Rightarrow> (500, Failure_body (str e)
                   (codes (''Failed to fetch '' @ period @ '' data for '')
                      @ strip ucd (upper ucd (args_get ticker_arg []))))
      | Inr gd \<Rightarrow> if gd = [] then (404, Error_body ''No valid data points after processing'')
                  else (200, Graph_body (strip ucd (upper ucd (args_get ticker_arg []))) period gd now),
      snd (graph_data_period (Ticker (strip ucd (upper ucd (args_get ticker_arg [])))) period))"
  using assms
  by (simp add: get_stock_graph_def Let_def args_get_def split: prod.splits sum.splits)

lemma handler_ticker:
  assumes "get_stock_graph ucd ny Ticker now arg period_arg = ((code, Graph_body tk p gd u), calls)"
  shows "tk = strip ucd (upper ucd (args_get arg [])) \<and> p = args_get period_arg ''1d''
         \<and> gd \<noteq> [] \<and> code = 200"
  using assms
  by (auto simp: get_stock_graph_def Let_def split: prod.splits sum.splits if_splits)

lemma session_bars_length:
  assumes "session_bars ny data = Inr ps"
  shows "length ps \<le> len_market_data ny data"
proof -
  let ?bs = "bins ny (sort_key stamp (filter (\<lambda>r. market_time ny (stamp r)) (rows data)))"
  from session_bars_total[of ny data] assms
  have m: "map time ps = filter (\<lambda>lo. agg_last (map Close (bucket ny data lo)) \<noteq> None) ?bs"
    by auto
  have "length ps = length (map time ps)" by simp
  also have "\<dots> \<le> length ?bs" unfolding m by (rule length_filter_le)
  also have "\<dots> = len_market_data ny data"
    by (simp add: len_market_data_def market_data_eq rows_resample)
  finally show ?thesis .
qed

lemma session_bars_Inr: "\<exists>ps. session_bars ny data = Inr ps"
  using session_bars_total[of ny data] by blast

section \<open>The fallback session\<close>

text \<open>
  Claim C1, amended. For a 1d request whose primary session is not empty and resamples to
  fewer than 2 rows, the handler makes exactly two calls: the session of the target date, and
  the session of \<^verbatim>\<open>pd.Timestamp(target_date) - pd.offsets.BDay(1)\<close>, the business day before
  the target date. That day is three days back from a Monday (the Friday), two days back from
  a Sunday, and one day back from any other day; it is never a Saturday or a Sunday.
\<close>

theorem fallback_session:
  "(history (primary_request now) = Inr data \<and> rows data \<noteq> [] \<and> len_market_data ny data < 2
      \<longrightarrow>
        snd (graph_data_1d ny history now)
          = [History_range (target_date now) (target_date now + 1) ''1m'' True,
             History_range (prev_trading_day (target_date now))
               (prev_trading_day (target_date now) + 1) ''1m'' True])
   \<and> (strip ucd (upper ucd (args_get ticker_arg [])) \<noteq> [] \<longrightarrow>
        snd (get_stock_graph ucd ny Ticker now ticker_arg (Some ''1d''))
          = snd (graph_data_1d ny (Ticker (strip ucd (upper ucd (args_get ticker_arg [])))) now))
   \<and> prev_trading_day d = (if weekday d = 0 then d - 3 else if weekday d = 6 then d - 2 else d - 1)
   \<and> weekday (prev_trading_day d) \<le> 4"
proof -
  have a: "snd (graph_data_1d ny history now)
          = [History_range (target_date now) (target_date now + 1) ''1m'' True,
             History_range (prev_trading_day (target_date now))
               (prev_trading_day (target_date now) + 1) ''1m'' True]"
    if "history (primary_request now) = Inr data" "rows data \<noteq> []" "len_market_data ny data < 2"
    using that
    by (simp add: graph_data_1d_flow split: sum.splits)
       (simp add: primary_request_def fallback_request_def)
  have b: "snd (get_stock_graph ucd ny Ticker now ticker_arg (Some ''1d''))
          = snd (graph_data_1d ny (Ticker (strip ucd (upper ucd (args_get ticker_arg [])))) now)"
    if "strip ucd (upper ucd (args_get ticker_arg [])) \<noteq> []"
    using that by (simp add: handler_1d)
  from a b prev_trading_day_eq prev_trading_day_weekday show ?thesis by blast
qed

theorem fallback_session_witness:
  "snd (get_stock_graph latin1 est market (clock 738893 10 0) (Some AAPL) (Some ''1d''))
     = [History_range 738893 738894 ''1m'' True, History_range 738890 738891 ''1m'' True]
   \<and> prev_trading_day 738893 = 738890"
proof -
  have t: "strip latin1 (upper latin1 (args_get (Some AAPL) [])) \<noteq> []"
    by (simp add: aapl aapl_ne)
  have p: "market AAPL (primary_request (clock 738893 10 0)) = Inr monday_thin"
    by (simp add: primary_request_def monday_10 market_def)
  from fallback_session[where history = "market AAPL" and now = "clock 738893 10 0"
      and data = monday_thin and ny = est and ucd = latin1 and ticker_arg = "Some AAPL"
      and Ticker = market and d = 738893]
    t p rows_monday_thin monday_thin_len
  show ?thesis by (simp add: monday_10 monday_prev aapl weekday_def)
qed

theorem fallback_session_counterexample:
  "snd (get_stock_graph latin1 est market (clock 738893 10 0) (Some AAPL) (Some ''1d''))
     = [History_range 738893 738894 ''1m'' True, History_range 738890 738891 ''1m'' True]
   \<and> target_date (clock 738893 10 0) = 738893
   \<and> market AAPL (History_range 738893 738894 ''1m'' True) = Inr monday_thin
   \<and> len_market_data est monday_thin = 1
   \<and> weekday 738893 = 0 \<and> weekday (738893 - 1) = 6 \<and> weekday 738890 = 4
   \<and> (738890 :: int) \<noteq> 738893 - 1"
  by (simp add: handler_1d aapl aapl_ne market_monday_1d monday_10 monday_thin_len weekday_def
      market_def)

text \<open>
  Claim C2, amended. A 1d request whose primary fetch has no rows returns the empty sequence
  and makes no second call. A primary fetch with rows is resampled, and the number of rows of
  the resampled frame is counted before any bar is dropped for its missing close: with 2 rows
  or more the bars of the primary session are returned, whatever their number, and with
  fewer than 2 rows the fallback session is fetched and the returned sequence is the bars of
  the fallback session alone, or the empty sequence when the fallback fetch has no rows. A
  session never has more bars than its resampled frame has rows. A sequence that is not empty
  is the data of the answer.
\<close>

theorem fallback_policy:
  "(history (primary_request now) = Inr data \<and> rows data \<noteq> [] \<and> len_market_data ny data < 2
      \<and> history (fallback_request now) = Inr prev_data \<longrightarrow>
        graph_data_1d ny history now =
          (if rows prev_data = [] then Inr [] else session_bars ny prev_data,
           [primary_request now, fallback_request now]))
   \<and> (history (primary_request now) = Inr data \<and> rows data \<noteq> []
        \<and> 2 \<le> len_market_data ny data \<longrightarrow>
        graph_data_1d ny history now = (session_bars ny data, [primary_request now]))
   \<and> (history (primary_request now) = Inr data \<and> rows data = [] \<longrightarrow>
        graph_data_1d ny history now = (Inr [], [primary_request now]))
   \<and> (session_bars ny data = Inr ps \<longrightarrow> length ps \<le> len_market_data ny data)
   \<and> (strip ucd (upper ucd (args_get ticker_arg [])) \<noteq> []
        \<and> graph_data_1d ny (Ticker (strip ucd (upper ucd (args_get ticker_arg [])))) now
            = (Inr gd, calls)
        \<and> gd \<noteq> [] \<longrightarrow>
        get_stock_graph ucd ny Ticker now ticker_arg (Some ''1d'')
          = ((200, Graph_body (strip ucd (upper ucd (args_get ticker_arg []))) ''1d'' gd now),
             calls))"
proof -
  have a: "graph_data_1d ny history now =
          (if rows prev_data = [] then Inr [] else session_bars ny prev_data,
           [primary_request now, fallback_request now])"
    if "history (primary_request now) = Inr data" "rows data \<noteq> []"
      "len_market_data ny data < 2" "history (fallback_request now) = Inr prev_data"
    using that by (simp add: graph_data_1d_flow)
  have b: "graph_data_1d ny history now = (session_bars ny data, [primary_request now])"
    if "history (primary_request now) = Inr data" "rows data \<noteq> []"
      "2 \<le> len_market_data ny data"
    using that by (simp add: graph_data_1d_flow)
  have c: "graph_data_1d ny history now = (Inr [], [primary_request now])"
    if "history (primary_request now) = Inr data" "rows data = []"
    using that by (simp add: graph_data_1d_flow)
  have d: "length ps \<le> len_market_data ny data" if "session_bars ny data = Inr ps"
    using that by (rule session_bars_length)
  have e: "get_stock_graph ucd ny Ticker now ticker_arg (Some ''1d'')
          = ((200, Graph_body (strip ucd (upper ucd (args_get ticker_arg []))) ''1d'' gd now),
             calls)"
    if "strip ucd (upper ucd (args_get ticker_arg [])) \<noteq> []"
      "graph_data_1d ny (Ticker (strip ucd (upper ucd (args_get ticker_arg [])))) now
         = (Inr gd, calls)" "gd \<noteq> []"
    using that by (simp add: handler_1d)
  from a b c d e show ?thesis by blast
qed

theorem fallback_policy_witness:
  "graph_data_1d est (market AAPL) (clock 738893 10 0) =
     (Inr [\<lparr>time = at_ny 738890 9 30, price = 99, open_price = Some 99, high = Some 99,
             low = Some 99, volume = 4\<rparr>,
           \<lparr>time = at_ny 738890 9 35, price = 100, open_price = Some 100, high = Some 100,
             low = Some 100, volume = 6\<rparr>],
      [History_range 738893 738894 ''1m'' True, History_range 738890 738891 ''1m'' True])
   \<and> graph_data_1d est (market AAPL) (clock 738894 10 0)
       = (Inr [], [History_range 738894 738895 ''1m'' True])"
proof -
  have p: "market AAPL (primary_request (clock 738893 10 0)) = Inr monday_thin"
    by (simp add: primary_request_def monday_10 market_def)
  have f: "market AAPL (fallback_request (clock 738893 10 0)) = Inr friday_full"
    by (simp add: fallback_request_def monday_10 monday_prev market_def)
  have q: "market AAPL (primary_request (clock 738894 10 0)) = Inr (ny_frame [])"
    by (simp add: primary_request_def tuesday_10 market_def)
  have r: "rows (ny_frame []) = []" by (simp add: ny_frame_def)
  show ?thesis
    using fallback_policy[where history = "market AAPL" and now = "clock 738893 10 0"
        and data = monday_thin and ny = est and prev_data = friday_full]
      fallback_policy[where history = "market AAPL" and now = "clock 738894 10 0"
        and data = "ny_frame []" and ny = est]
      p f q r rows_monday_thin rows_friday_full monday_thin_len friday_full_bars
    by (simp add: primary_request_def fallback_request_def monday_10 tuesday_10 monday_prev)
qed

theorem fallback_policy_counterexample:
  "get_stock_graph latin1 est market (clock 738894 10 0) (Some AAPL) (Some ''1d'')
     = ((404, Error_body ''No valid data points after processing''),
        [History_range 738894 738895 ''1m'' True])
   \<and> target_date (clock 738894 10 0) = 738894
   \<and> market AAPL (History_range 738894 738895 ''1m'' True) = Inr (ny_frame [])
   \<and> rows (ny_frame []) = []
   \<and> prev_trading_day 738894 = 738893
   \<and> market AAPL (History_range 738893 738894 ''1m'' True) = Inr monday_thin
   \<and> session_bars est monday_thin =
       Inr [\<lparr>time = at_ny 738893 9 30, price = 101, open_price = Some 101, high = Some 101,
             low = Some 101, volume = 10\<rparr>]"
  by (simp add: handler_1d aapl aapl_ne market_tuesday_1d tuesday_10 market_def ny_frame_def
      prev_trading_day_eq weekday_def monday_thin_bars)

section \<open>Failures of the provider\<close>

text \<open>
  Claim C6, amended. An exception raised by any call to the provider ends the request: the
  handler answers 500 with the body \<^verbatim>\<open>{"status": "error", "error": str(e), "message":
  "Failed to fetch {period} data for {ticker}"}\<close> and makes no further call. A failed primary
  fetch of a 1d request is followed by no fallback fetch; a failed fallback fetch gives 500
  after the two calls; a failed fetch of another period gives 500 after its one call. When no
  call raises, the 1d path yields a sequence of bars, which may be empty, and the answer is
  not 500.
\<close>

theorem provider_failure:
  "(strip ucd (upper ucd (args_get ticker_arg [])) \<noteq> []
      \<and> Ticker (strip ucd (upper ucd (args_get ticker_arg []))) (primary_request now) = Inl e
      \<longrightarrow>
      get_stock_graph ucd ny Ticker now ticker_arg (Some ''1d'')
        = ((500, Failure_body (str e)
                   (codes ''Failed to fetch 1d data for ''
                      @ strip ucd (upper ucd (args_get ticker_arg [])))),
           [primary_request now]))
   \<and> (strip ucd (upper ucd (args_get ticker_arg [])) \<noteq> []
        \<and> Ticker (strip ucd (upper ucd (args_get ticker_arg []))) (primary_request now) = Inr data
        \<and> rows data \<noteq> [] \<and> len_market_data ny data < 2
        \<and> Ticker (strip ucd (upper ucd (args_get ticker_arg []))) (fallback_request now) = Inl e
      \<longrightarrow>
      get_stock_graph ucd ny Ticker now ticker_arg (Some ''1d'')
        = ((500, Failure_body (str e)
                   (codes ''Failed to fetch 1d data for ''
                      @ strip ucd (upper ucd (args_get ticker_arg [])))),
           [primary_request now, fallback_request now]))
   \<and> (strip ucd (upper ucd (args_get ticker_arg [])) \<noteq> [] \<and> period \<noteq> ''1d''
        \<and> Ticker (strip ucd (upper ucd (args_get ticker_arg []))) (period_request period) = Inl e
      \<longrightarrow>
      get_stock_graph ucd ny Ticker now ticker_arg (Some period)
        = ((500, Failure_body (str e)
                   (codes (''Failed to fetch '' @ period @ '' data for '')
                      @ strip ucd (upper ucd (args_get ticker_arg [])))),
           [period_request period]))
   \<and> ((\<forall>req. \<exists>fr. history req = Inr fr) \<longrightarrow>
        (\<exists>gd. fst (graph_data_1d ny history now) = Inr gd))
   \<and> ((\<forall>req. \<exists>fr. Ticker (strip ucd (upper ucd (args_get ticker_arg []))) req = Inr fr) \<longrightarrow>
        fst (fst (get_stock_graph ucd ny Ticker now ticker_arg (Some ''1d''))) \<noteq> 500)"
proof -
  let ?t = "strip ucd (upper ucd (args_get ticker_arg []))"
  have a: "get_stock_graph ucd ny Ticker now ticker_arg (Some ''1d'')
        = ((500, Failure_body (str e) (codes ''Failed to fetch 1d data for '' @ ?t)),
           [primary_request now])"
    if "?t \<noteq> []" "Ticker ?t (primary_request now) = Inl e"
    using that by (simp add: handler_1d graph_data_1d_flow)
  have b: "get_stock_graph ucd ny Ticker now ticker_arg (Some ''1d'')
        = ((500, Failure_body (str e) (codes ''Failed to fetch 1d data for '' @ ?t)),
           [primary_request now, fallback_request now])"
    if "?t \<noteq> []" "Ticker ?t (primary_request now) = Inr data"
      "rows data \<noteq> []" "len_market_data ny data < 2" "Ticker ?t (fallback_request now) = Inl e"
    using that by (simp add: handler_1d graph_data_1d_flow)
  have c: "get_stock_graph ucd ny Ticker now ticker_arg (Some period)
        = ((500, Failure_body (str e)
                   (codes (''Failed to fetch '' @ period @ '' data for '') @ ?t)),
           [period_request period])"
    if "?t \<noteq> []" "period \<noteq> ''1d''" "Ticker ?t (period_request period) = Inl e"
    using that by (simp add: handler_period graph_data_period_def Let_def)
  have d: "\<exists>gd. fst (graph_data_1d ny h now) = Inr gd"
    if h: "\<forall>req. \<exists>fr. h req = Inr fr" for h
  proof -
    from h obtain d1 where d1: "h (primary_request now) = Inr d1" by blast
    from h obtain d2 where d2: "h (fallback_request now) = Inr d2" by blast
    obtain p1 where p1: "session_bars ny d1 = Inr p1" using session_bars_Inr by blast
    obtain p2 where p2: "session_bars ny d2 = Inr p2" using session_bars_Inr by blast
    show ?thesis by (simp add: graph_data_1d_flow d1 d2 p1 p2)
  qed
  have e: "fst (fst (get_stock_graph ucd ny Ticker now ticker_arg (Some ''1d''))) \<noteq> 500"
    if h: "\<forall>req. \<exists>fr. Ticker ?t req = Inr fr"
  proof (cases "?t = []")
    case True
    then show ?thesis by (simp add: get_stock_graph_def)
  next
    case False
    from d[OF h] obtain gd where "fst (graph_data_1d ny (Ticker ?t) now) = Inr gd" ..
    with False show ?thesis by (simp add: handler_1d)
  qed
  from a b c d e show ?thesis by blast
qed

theorem provider_failure_witness:
  "get_stock_graph latin1 est flaky (clock 738893 10 0) (Some AAPL) (Some ''1d'')
     = ((500, Failure_body ''Connection refused'' (codes ''Failed to fetch 1d data for '' @ AAPL)),
        [History_range 738893 738894 ''1m'' True])
   \<and> get_stock_graph latin1 est provider_down (clock 738893 10 0) (Some AAPL) (Some ''7d'')
     = ((500, Failure_body ''Connection refused'' (codes ''Failed to fetch 7d data for '' @ AAPL)),
        [History_period ''7d'' ''1h'' False])"
proof -
  have t: "strip latin1 (upper latin1 (args_get (Some AAPL) [])) \<noteq> []"
    by (simp add: aapl aapl_ne)
  have p: "flaky (strip latin1 (upper latin1 (args_get (Some AAPL) [])))
             (primary_request (clock 738893 10 0)) = Inl (ProviderError ''Connection refused'')"
    by (simp add: primary_request_def monday_10 flaky_def)
  have q: "provider_down (strip latin1 (upper latin1 (args_get (Some AAPL) [])))
             (period_request ''7d'') = Inl (ProviderError ''Connection refused'')"
    by (simp add: provider_down_def)
  have n: "''7d'' \<noteq> ''1d''" by simp
  show ?thesis
    using provider_failure[where ucd = latin1 and ticker_arg = "Some AAPL" and Ticker = flaky
        and now = "clock 738893 10 0" and e = "ProviderError ''Connection refused''"
        and ny = est]
      provider_failure[where ucd = latin1 and ticker_arg = "Some AAPL"
        and Ticker = provider_down and now = "clock 738893 10 0"
        and e = "ProviderError ''Connection refused''" and ny = est and period = "''7d''"]
      t p q n
    by (simp add: aapl primary_request_def monday_10 period_request_def)
qed

theorem provider_failure_counterexample:
  "get_stock_graph latin1 est flaky (clock 738893 10 0) (Some AAPL) (Some ''1d'')
     = ((500, Failure_body ''Connection refused'' (codes ''Failed to fetch 1d data for '' @ AAPL)),
        [History_range 738893 738894 ''1m'' True])
   \<and> flaky AAPL (History_range 738893 738894 ''1m'' True)
       = Inl (ProviderError ''Connection refused'')
   \<and> prev_trading_day (target_date (clock 738893 10 0)) = 738890
   \<and> flaky AAPL (History_range 738890 738891 ''1m'' True) = Inr friday_full
   \<and> session_bars est friday_full =
       Inr [\<lparr>time = at_ny 738890 9 30, price = 99, open_price = Some 99, high = Some 99,
             low = Some 99, volume = 4\<rparr>,
           \<lparr>time = at_ny 738890 9 35, price = 100, open_price = Some 100, high = Some 100,
             low = Some 100, volume = 6\<rparr>]"
  by (simp add: handler_1d aapl aapl_ne flaky_monday_1d monday_10 monday_prev flaky_def
      friday_full_bars)

section \<open>No data\<close>

text \<open>
  Claim C7, amended. For every request with a ticker, whatever the period, when the sequence
  of data points is empty after all processing the handler answers 404 with the body
  \<^verbatim>\<open>{"error": "No valid data points after processing"}\<close>, whose only key is \<^verbatim>\<open>error\<close>. The
  body with the keys \<^verbatim>\<open>status\<close>, \<^verbatim>\<open>error\<close> and \<^verbatim>\<open>message\<close> comes with the status 500 only, and
  an answer that carries data carries at least one point, with the status 200.
\<close>

theorem empty_data_response:
  "(strip ucd (upper ucd (args_get ticker_arg [])) \<noteq> []
      \<and> (if args_get period_arg ''1d'' = ''1d''
          then graph_data_1d ny (Ticker (strip ucd (upper ucd (args_get ticker_arg [])))) now
          else graph_data_period (Ticker (strip ucd (upper ucd (args_get ticker_arg []))))
                 (args_get period_arg ''1d'')) = (Inr [], calls) \<longrightarrow>
      get_stock_graph ucd ny Ticker now ticker_arg period_arg
        = ((404, Error_body ''No valid data points after processing''), calls))
   \<and> json_keys (Error_body ''No valid data points after processing'') = [''error'']
   \<and> (get_stock_graph ucd ny Ticker now ticker_arg period_arg = ((code, Failure_body m1 m2), cs)
        \<longrightarrow> code = 500)
   \<and> (get_stock_graph ucd ny Ticker now ticker_arg period_arg = ((code, Graph_body t p gd u), cs)
        \<longrightarrow> gd \<noteq> [] \<and> code = 200)"
proof -
  have a: "get_stock_graph ucd ny Ticker now ticker_arg period_arg
        = ((404, Error_body ''No valid data points after processing''), calls)"
    if "strip ucd (upper ucd (args_get ticker_arg [])) \<noteq> []"
      "(if args_get period_arg ''1d'' = ''1d''
          then graph_data_1d ny (Ticker (strip ucd (upper ucd (args_get ticker_arg [])))) now
          else graph_data_period (Ticker (strip ucd (upper ucd (args_get ticker_arg []))))
                 (args_get period_arg ''1d'')) = (Inr [], calls)"
    using that by (simp add: get_stock_graph_def Let_def)
  have b: "code = 500"
    if "get_stock_graph ucd ny Ticker now ticker_arg period_arg = ((code, Failure_body m1 m2), cs)"
    using that
    by (auto simp: get_stock_graph_def Let_def split: if_splits prod.splits sum.splits)
  have c: "gd \<noteq> [] \<and> code = 200"
    if "get_stock_graph ucd ny Ticker now ticker_arg period_arg = ((code, Graph_body t p gd u), cs)"
    using handler_ticker[OF that] by simp
  from a b c show ?thesis by simp
qed

theorem empty_data_response_witness:
  "get_stock_graph latin1 est provider_empty (clock 738893 10 0) (Some AAPL) (Some ''30d'')
     = ((404, Error_body ''No valid data points after processing''),
        [History_period ''1mo'' ''1d'' False])"
proof -
  have t: "strip latin1 (upper latin1 (args_get (Some AAPL) [])) \<noteq> []"
    by (simp add: aapl aapl_ne)
  have g: "(if args_get (Some ''30d'') ''1d'' = ''1d''
              then graph_data_1d est
                     (provider_empty (strip latin1 (upper latin1 (args_get (Some AAPL) []))))
                     (clock 738893 10 0)
              else graph_data_period
                     (provider_empty (strip latin1 (upper latin1 (args_get (Some AAPL) []))))
                     (args_get (Some ''30d'') ''1d''))
           = (Inr [], [History_period ''1mo'' ''1d'' False])"
    by (simp add: args_get_def graph_data_period_def period_request_def provider_empty_def
        iterrows_points_def ny_frame_def Let_def)
  from empty_data_response[where ucd = latin1 and ticker_arg = "Some AAPL"
      and period_arg = "Some ''30d''" and ny = est and Ticker = provider_empty
      and now = "clock 738893 10 0" and calls = "[History_period ''1mo'' ''1d'' False]"] t g
  show ?thesis by blast
qed

theorem empty_data_response_counterexample:
  "get_stock_graph latin1 est provider_empty (clock 738893 10 0) (Some AAPL) (Some ''7d'')
     = ((404, Error_body ''No valid data points after processing''),
        [History_period ''7d'' ''1h'' False])
   \<and> json_keys (snd (fst (get_stock_graph latin1 est provider_empty (clock 738893 10 0)
                            (Some AAPL) (Some ''7d'')))) = [''error'']
   \<and> json_keys (snd (fst (get_stock_graph latin1 est provider_empty (clock 738893 10 0)
                            (Some AAPL) (Some ''7d''))))
       \<noteq> [''status'', ''error'', ''message'']"
proof -
  have n: "''7d'' \<noteq> ''1d''" by simp
  have t: "strip latin1 (upper latin1 (args_get (Some AAPL) [])) \<noteq> []"
    by (simp add: aapl aapl_ne)
  have "get_stock_graph latin1 est provider_empty (clock 738893 10 0) (Some AAPL) (Some ''7d'')
     = ((404, Error_body ''No valid data points after processing''),
        [History_period ''7d'' ''1h'' False])"
    by (simp add: handler_period[OF t n] graph_data_period_def period_request_def
        provider_empty_def iterrows_points_def ny_frame_def Let_def)
  then show ?thesis by simp
qed

section \<open>The order of the bars\<close>




section \<open>The ticker argument\<close>

lemma strip_Nil_iff: "strip ucd s = [] \<longleftrightarrow> (\<forall>c\<in>set s. is_space ucd c)"
proof
  assume "strip ucd s = []"
  then have a: "\<forall>c\<in>set (dropWhile (is_space ucd) s). is_space ucd c"
    by (simp add: strip_def dropWhile_eq_Nil_conv)
  have "dropWhile (is_space ucd) s = []"
  proof (rule ccontr)
    assume n: "dropWhile (is_space ucd) s \<noteq> []"
    then have "\<not> is_space ucd (hd (dropWhile (is_space ucd) s))" by (rule hd_dropWhile)
    moreover from n have "hd (dropWhile (is_space ucd) s) \<in> set (dropWhile (is_space ucd) s)"
      by simp
    ultimately show False using a by blast
  qed
  then show "\<forall>c\<in>set s. is_space ucd c" by (simp add: dropWhile_eq_Nil_conv)
next
  assume "\<forall>c\<in>set s. is_space ucd c"
  then show "strip ucd s = []" by (auto simp: strip_def dest: set_dropWhileD)
qed

lemma set_upper: "set (upper ucd s) = (\<Union>c\<in>set s. set (toupper_full ucd c))"
  by (simp add: upper_def)

lemma normalised_Nil_iff:
  "strip ucd (upper ucd s) = [] \<longleftrightarrow> (\<forall>c\<in>set s. \<forall>d\<in>set (toupper_full ucd c). is_space ucd d)"
  by (auto simp: strip_Nil_iff set_upper)

lemma strip_infix:
  "\<exists>pre post. (\<forall>c\<in>set (pre @ post). is_space ucd c) \<and> s = pre @ strip ucd s @ post"
proof -
  let ?P = "is_space ucd"
  let ?d = "dropWhile ?P s"
  have a: "s = takeWhile ?P s @ ?d" by simp
  have "strip ucd s @ rev (takeWhile ?P (rev ?d))
          = rev (takeWhile ?P (rev ?d) @ dropWhile ?P (rev ?d))"
    unfolding strip_def by (simp only: rev_append)
  also have "\<dots> = ?d" by (simp only: takeWhile_dropWhile_id rev_rev_ident)
  finally have b: "?d = strip ucd s @ rev (takeWhile ?P (rev ?d))" by (rule sym)
  have c: "\<forall>c\<in>set (takeWhile ?P s @ rev (takeWhile ?P (rev ?d))). ?P c"
    by (auto dest: set_takeWhileD)
  from a b have "s = takeWhile ?P s @ strip ucd s @ rev (takeWhile ?P (rev ?d))" by simp
  with c show ?thesis by blast
qed

lemma rstrip_keeps_head:
  assumes "t \<noteq> [] \<Longrightarrow> \<not> P (hd t)"
  shows "dropWhile P (rev (dropWhile P (rev t))) = rev (dropWhile P (rev t))"
  by (metis assms dropWhile_eq_self_iff dropWhile_last hd_rev last_in_set
      last_rev rev_is_Nil_conv)

lemma strip_ends:
  assumes "strip ucd s \<noteq> []"
  shows "\<not> is_space ucd (hd (strip ucd s)) \<and> \<not> is_space ucd (last (strip ucd s))"
proof -
  let ?P = "is_space ucd"
  let ?t = "dropWhile ?P s"
  have "?t \<noteq> [] \<Longrightarrow> \<not> ?P (hd ?t)" by (rule hd_dropWhile)
  then have "dropWhile ?P (rev (dropWhile ?P (rev ?t))) = rev (dropWhile ?P (rev ?t))"
    by (rule rstrip_keeps_head)
  then have l: "dropWhile ?P (strip ucd s) = strip ucd s" by (simp add: strip_def)
  from assms l have "dropWhile ?P (strip ucd s) \<noteq> []" by simp
  then have "\<not> ?P (hd (dropWhile ?P (strip ucd s)))" by (rule hd_dropWhile)
  with l have h: "\<not> ?P (hd (strip ucd s))" by simp
  from assms have n: "dropWhile ?P (rev ?t) \<noteq> []" by (simp add: strip_def)
  then have "\<not> ?P (hd (dropWhile ?P (rev ?t)))" by (rule hd_dropWhile)
  with n have "\<not> ?P (last (strip ucd s))" by (simp add: strip_def last_rev)
  with h show ?thesis by simp
qed

lemma handler_calls:
  assumes "strip ucd (upper ucd (args_get arg [])) \<noteq> []"
  shows "snd (get_stock_graph ucd ny Ticker now arg period_arg) \<noteq> []"
    and "snd (get_stock ucd Ticker quote arg) \<noteq> []"
proof -
  have g: "snd (graph_data_1d ny h now) \<noteq> []" for h
    by (simp add: graph_data_1d_flow split: sum.splits)
  have q: "snd (graph_data_period h period) \<noteq> []" for h period
    by (simp add: graph_data_period_def Let_def split: sum.splits)
  let ?t = "strip ucd (upper ucd (args_get arg []))"
  show "snd (get_stock_graph ucd ny Ticker now arg period_arg) \<noteq> []"
  proof (cases "args_get period_arg ''1d'' = ''1d''")
    case True
    obtain r c where rc: "graph_data_1d ny (Ticker ?t) now = (r, c)"
      by (cases "graph_data_1d ny (Ticker ?t) now") simp
    with g[of "Ticker ?t"] have "c \<noteq> []" by simp
    with assms True rc show ?thesis
      by (simp add: get_stock_graph_def Let_def split: sum.splits)
  next
    case False
    obtain r c where rc: "graph_data_period (Ticker ?t) (args_get period_arg ''1d'') = (r, c)"
      by (cases "graph_data_period (Ticker ?t) (args_get period_arg ''1d'')") simp
    with q[of "Ticker ?t" "args_get period_arg ''1d''"] have "c \<noteq> []" by simp
    with assms False rc show ?thesis
      by (simp add: get_stock_graph_def Let_def split: sum.splits)
  qed
  from assms show "snd (get_stock ucd Ticker quote arg) \<noteq> []"
    by (simp add: get_stock_def Let_def split: sum.splits)
qed

text \<open>
  Claim C10. The handlers use the ticker argument only as the string \<open>strip (upper arg)\<close>:
  every code point of the argument is replaced by its upper case mapping, and then the
  leading and the trailing white space is removed (what is removed is white space, and what
  remains neither starts nor ends with white space). That string is the symbol handed to
  \<^verbatim>\<open>yf.Ticker\<close>, the only symbol at which the provider is consulted, and the ticker of the
  answer. It is empty exactly when the argument is missing, empty, or upper-cases to white
  space only, which for tables that map white space to white space and nothing else to white
  space (as Unicode's do) is an argument of white space only; then \<^verbatim>\<open>/stock_graph\<close> and \<^verbatim>\<open>/stock\<close> answer 400 with the body
  \<^verbatim>\<open>{"error": "No ticker provided"}\<close> and make no call to the provider, and otherwise each
  makes a call.
\<close>

theorem ticker_guard:
  "(strip ucd (upper ucd (args_get arg [])) = [] \<longrightarrow>
       get_stock_graph ucd ny Ticker now arg period_arg
         = ((400, Error_body ''No ticker provided''), [])
     \<and> get_stock ucd Ticker quote arg = ((400, Error_body ''No ticker provided''), []))
   \<and> (strip ucd (upper ucd (args_get arg [])) \<noteq> [] \<longrightarrow>
       snd (get_stock_graph ucd ny Ticker now arg period_arg) \<noteq> []
     \<and> snd (get_stock ucd Ticker quote arg) \<noteq> [])
   \<and> (strip ucd (upper ucd (args_get arg [])) = [] \<longleftrightarrow>
       (\<forall>c\<in>set (args_get arg []). \<forall>d\<in>set (toupper_full ucd c). is_space ucd d))
   \<and> ((\<forall>c. toupper_full ucd c \<noteq> []
             \<and> (\<forall>d\<in>set (toupper_full ucd c). is_space ucd d = is_space ucd c)) \<longrightarrow>
        (strip ucd (upper ucd (args_get arg [])) = [] \<longleftrightarrow>
           (\<forall>c\<in>set (args_get arg []). is_space ucd c)))
   \<and> (arg = None \<longrightarrow> strip ucd (upper ucd (args_get arg [])) = [])
   \<and> upper ucd (args_get arg []) = concat (map (toupper_full ucd) (args_get arg []))
   \<and> (\<exists>pre post. (\<forall>c\<in>set (pre @ post). is_space ucd c)
        \<and> upper ucd (args_get arg []) = pre @ strip ucd (upper ucd (args_get arg [])) @ post)
   \<and> (strip ucd (upper ucd (args_get arg [])) \<noteq> [] \<longrightarrow>
        \<not> is_space ucd (hd (strip ucd (upper ucd (args_get arg []))))
      \<and> \<not> is_space ucd (last (strip ucd (upper ucd (args_get arg [])))))
   \<and> (Ticker2 (strip ucd (upper ucd (args_get arg [])))
         = Ticker (strip ucd (upper ucd (args_get arg []))) \<longrightarrow>
        get_stock_graph ucd ny Ticker2 now arg period_arg
          = get_stock_graph ucd ny Ticker now arg period_arg
      \<and> get_stock ucd Ticker2 quote arg = get_stock ucd Ticker quote arg)
   \<and> ((\<forall>hist. quote2 (strip ucd (upper ucd (args_get arg []))) hist
                  = quote (strip ucd (upper ucd (args_get arg []))) hist) \<longrightarrow>
        get_stock ucd Ticker quote2 arg = get_stock ucd Ticker quote arg)
   \<and> (get_stock_graph ucd ny Ticker now arg period_arg = ((code, Graph_body tk p gd u), calls)
        \<longrightarrow> tk = strip ucd (upper ucd (args_get arg [])))"
proof -
  let ?t = "strip ucd (upper ucd (args_get arg []))"
  have a: "?t = [] \<longrightarrow>
       get_stock_graph ucd ny Ticker now arg period_arg
         = ((400, Error_body ''No ticker provided''), [])
     \<and> get_stock ucd Ticker quote arg = ((400, Error_body ''No ticker provided''), [])"
    by (simp add: get_stock_graph_def get_stock_def Let_def)
  have b: "?t \<noteq> [] \<longrightarrow>
       snd (get_stock_graph ucd ny Ticker now arg period_arg) \<noteq> []
     \<and> snd (get_stock ucd Ticker quote arg) \<noteq> []"
    using handler_calls by blast
  have c: "?t = [] \<longleftrightarrow>
       (\<forall>c\<in>set (args_get arg []). \<forall>d\<in>set (toupper_full ucd c). is_space ucd d)"
    by (rule normalised_Nil_iff)
  have c2: "(\<forall>c. toupper_full ucd c \<noteq> []
             \<and> (\<forall>d\<in>set (toupper_full ucd c). is_space ucd d = is_space ucd c)) \<longrightarrow>
        (?t = [] \<longleftrightarrow> (\<forall>c\<in>set (args_get arg []). is_space ucd c))"
  proof
    assume u: "\<forall>c. toupper_full ucd c \<noteq> []
             \<and> (\<forall>d\<in>set (toupper_full ucd c). is_space ucd d = is_space ucd c)"
    have "(\<forall>d\<in>set (toupper_full ucd x). is_space ucd d) \<longleftrightarrow> is_space ucd x" for x
    proof
      assume k: "\<forall>d\<in>set (toupper_full ucd x). is_space ucd d"
      from u have "toupper_full ucd x \<noteq> []" by blast
      then obtain d where d: "d \<in> set (toupper_full ucd x)" by (cases "toupper_full ucd x") auto
      with k have "is_space ucd d" by blast
      with u d show "is_space ucd x" by blast
    next
      assume "is_space ucd x"
      with u show "\<forall>d\<in>set (toupper_full ucd x). is_space ucd d" by blast
    qed
    with c show "?t = [] \<longleftrightarrow> (\<forall>c\<in>set (args_get arg []). is_space ucd c)" by simp
  qed
  have d: "arg = None \<longrightarrow> ?t = []"
    by (simp add: args_get_def strip_def upper_def)
  have e: "upper ucd (args_get arg []) = concat (map (toupper_full ucd) (args_get arg []))"
    by (simp add: upper_def)
  have f: "\<exists>pre post. (\<forall>c\<in>set (pre @ post). is_space ucd c)
        \<and> upper ucd (args_get arg []) = pre @ ?t @ post"
    by (rule strip_infix)
  have g: "?t \<noteq> [] \<longrightarrow> \<not> is_space ucd (hd ?t) \<and> \<not> is_space ucd (last ?t)"
    using strip_ends by blast
  have h: "Ticker2 ?t = Ticker ?t \<longrightarrow>
        get_stock_graph ucd ny Ticker2 now arg period_arg
          = get_stock_graph ucd ny Ticker now arg period_arg
      \<and> get_stock ucd Ticker2 quote arg = get_stock ucd Ticker quote arg"
    by (simp add: get_stock_graph_def get_stock_def Let_def)
  have h2: "(\<forall>hist. quote2 ?t hist = quote ?t hist) \<longrightarrow>
        get_stock ucd Ticker quote2 arg = get_stock ucd Ticker quote arg"
    by (simp add: get_stock_def Let_def split: sum.splits)
  have i: "get_stock_graph ucd ny Ticker now arg period_arg = ((code, Graph_body tk p gd u), calls)
        \<longrightarrow> tk = ?t"
    using handler_ticker by blast
  show ?thesis by (intro conjI) (rule a b c c2 d e f g h h2 i)+
qed

theorem ticker_guard_witness:
  "strip latin1 (upper latin1 (args_get (Some [32, 97, 97, 112, 108, 9]) [])) = [65, 65, 80, 76]
   \<and> snd (get_stock_graph latin1 est market (clock 738893 10 0)
            (Some [32, 97, 97, 112, 108, 9]) (Some ''1d'')) \<noteq> []
   \<and> get_stock_graph latin1 est market (clock 738893 10 0) (Some [160, 32, 9]) (Some ''1d'')
       = ((400, Error_body ''No ticker provided''), [])
   \<and> get_stock latin1 market no_quote (Some [133]) = ((400, Error_body ''No ticker provided''), [])
   \<and> get_stock latin1 market no_quote None = ((400, Error_body ''No ticker provided''), [])
   \<and> (strip latin1 (upper latin1 (args_get (Some [160, 32, 9]) [])) = [] \<longleftrightarrow>
        (\<forall>c\<in>set (args_get (Some [160, 32, 9]) []). is_space latin1 c))"
proof -
  have a: "strip latin1 (upper latin1 (args_get (Some [32, 97, 97, 112, 108, 9]) []))
             = [65, 65, 80, 76]"
    by (simp add: strip_def upper_def args_get_def latin1_def)
  have b: "strip latin1 (upper latin1 (args_get (Some [160, 32, 9]) [])) = []"
    by (simp add: strip_def upper_def args_get_def latin1_def)
  have c: "strip latin1 (upper latin1 (args_get (Some [133]) [])) = []"
    by (simp add: strip_def upper_def args_get_def latin1_def)
  from a have n: "strip latin1 (upper latin1 (args_get (Some [32, 97, 97, 112, 108, 9]) [])) \<noteq> []"
    by simp
  from n ticker_guard[of latin1 "Some [32, 97, 97, 112, 108, 9]" est market "clock 738893 10 0"
        "Some ''1d''" no_quote, THEN conjunct2, THEN conjunct1]
  have w1: "snd (get_stock_graph latin1 est market (clock 738893 10 0)
            (Some [32, 97, 97, 112, 108, 9]) (Some ''1d'')) \<noteq> []"
    by blast
  from b ticker_guard[of latin1 "Some [160, 32, 9]" est market "clock 738893 10 0"
        "Some ''1d''" no_quote, THEN conjunct1]
  have w2: "get_stock_graph latin1 est market (clock 738893 10 0) (Some [160, 32, 9]) (Some ''1d'')
       = ((400, Error_body ''No ticker provided''), [])"
    by blast
  from c ticker_guard[of latin1 "Some [133]" est market "clock 738893 10 0"
        "Some ''1d''" no_quote, THEN conjunct1]
  have w3: "get_stock latin1 market no_quote (Some [133])
       = ((400, Error_body ''No ticker provided''), [])"
    by blast
  have d: "strip latin1 (upper latin1 (args_get None [])) = []"
    using ticker_guard[of latin1 None est market "clock 738893 10 0" "Some ''1d''" no_quote,
        THEN conjunct2, THEN conjunct2, THEN conjunct2, THEN conjunct2, THEN conjunct1]
    by simp
  from d ticker_guard[of latin1 None est market "clock 738893 10 0"
        "Some ''1d''" no_quote, THEN conjunct1]
  have w4: "get_stock latin1 market no_quote None = ((400, Error_body ''No ticker provided''), [])"
    by blast
  have u: "\<forall>c. toupper_full latin1 c \<noteq> []
             \<and> (\<forall>d\<in>set (toupper_full latin1 c). is_space latin1 d = is_space latin1 c)"
    by (auto simp: latin1_def)
  from u ticker_guard[of latin1 "Some [160, 32, 9]" est market "clock 738893 10 0"
        "Some ''1d''" no_quote, THEN conjunct2, THEN conjunct2, THEN conjunct2, THEN conjunct1]
  have w5: "strip latin1 (upper latin1 (args_get (Some [160, 32, 9]) [])) = [] \<longleftrightarrow>
              (\<forall>c\<in>set (args_get (Some [160, 32, 9]) []). is_space latin1 c)"
    by blast
  from a w1 w2 w3 w4 w5 show ?thesis by (intro conjI)
qed

end
